theory Spec2Isabelle
  imports Main "HOL-Library.Word" "HOL-Library.Multiset"
begin

unbundle bit_operations_syntax

section \<open>Package findimpls: locating the implementations of an interface\<close>

text \<open>
  The Go package \<open>findimpls\<close> loads a set of packages, locates one named interface and
  collects, per loaded package, the types that implement it together with the syntax of
  the requested methods. This theory embeds its six functions (\<open>Find\<close>,
  \<open>findInterface\<close>, \<open>findInterfaceImplementations\<close>, \<open>loadPkgTypeMethodASTs\<close>,
  \<open>findMethodDeclAST\<close>, \<open>pkgMethodBodyDecls\<close>) and proves properties of them.

  Conventions of the embedding:
  \<^item> a Go function returning \<open>(T, error)\<close>, which may also panic, returns an
    \<open>outcome\<close>: \<open>Returns\<close> a value, \<open>Fails\<close> with an error, or \<open>Panics\<close>;
    \<open>return nil, err\<close> is \<open>Fails\<close>, so a failing call carries no result at all;
  \<^item> a pointer that the source tests against \<open>nil\<close>, or that the libraries document
    as possibly \<open>nil\<close>, is an \<open>option\<close>, and dereferencing \<open>None\<close> is \<open>Panics\<close>; the
    query itself, the loaded packages, their \<open>TypesInfo\<close> and their files are taken
    to be there;
  \<^item> a Go map that the source only ranges over (\<open>TypesInfo.Defs\<close>) is the list of its
    entries in the order one run iterates them; Go leaves that order unspecified, so a
    property of the program has to hold for every order;
  \<^item> a Go map that the source builds is a HOL map; types used as keys are compared by
    structure;
  \<^item> the functions of \<open>go/types\<close> and \<open>go/packages\<close> that the source calls are
    parameters: a record \<open>typechecker\<close> of the type checker's answers and a function
    \<open>load\<close> standing for \<open>packages.Load\<close>. Where a property depends on what the
    loader does with a package that does not load, the loader is the Program Loader as
    the spec describes it.
\<close>

subsection \<open>Outcomes\<close>

datatype error =
    LoadFailed string
  | InterfaceTypeNotFound string string
  | InterfacePackageNotFound string
  | MethodNotFound string string
  | NotAFunction string
  | DeclNotFound string string

datatype panic = NilPointerDereference | TypeAssertionFailed

datatype 'a outcome = Returns 'a | Fails error | Panics panic

text \<open>\<open>if err != nil { return nil, err }\<close>: go on with the value, or stop with the failure.\<close>

fun andThen :: "'a outcome \<Rightarrow> ('a \<Rightarrow> 'b outcome) \<Rightarrow> 'b outcome" where
  "andThen (Returns x) f = f x"
| "andThen (Fails e) f = Fails e"
| "andThen (Panics p) f = Panics p"

text \<open>
  The text of each error, as the \<open>fmt.Errorf\<close> calls of the source build it. The verb
  \<open>%q\<close> is \<open>strconv.Quote\<close>, taken as the parameter \<open>quote\<close>. In \<open>NotAFunction\<close> the
  source formats the \<open>*types.Func\<close> that the failed type assertion left \<open>nil\<close>.
\<close>

fun Error :: "(string \<Rightarrow> string) \<Rightarrow> error \<Rightarrow> string" where
  "Error quote (LoadFailed err) = ''failed to load project packages: '' @ err"
| "Error quote (InterfaceTypeNotFound ifaceName ifaceImportPath) =
     ''did not find interface type '' @ quote ifaceName @ '' in loaded package '' @ quote ifaceImportPath"
| "Error quote (InterfacePackageNotFound ifaceImportPath) =
     ''did not find interface package '' @ quote ifaceImportPath"
| "Error quote (MethodNotFound methodName impl) =
     ''did not find method '' @ methodName @ '' on type '' @ impl"
| "Error quote (NotAFunction impl) =
     ''field <nil> on type '' @ impl @ '' should be a function''"
| "Error quote (DeclNotFound method impl) =
     ''method '' @ method @ '' on type '' @ impl @ '' not found in AST with matching body position''"

subsection \<open>Syntax trees (go/ast, go/token)\<close>

type_synonym Pos = int

datatype ObjKind = Bad | Pkg | Con | Typ | VarKind | Fun | Lbl

record AstObject =
  Kind :: ObjKind

record Ident =
  Name :: string
  Obj :: "AstObject option"

record BlockStmt =
  Lbrace :: Pos
  Rbrace :: Pos

text \<open>\<open>Recv\<close> is \<open>nil\<close> for a function, \<open>Body\<close> is \<open>nil\<close> for a declaration without body.\<close>

record FuncDecl =
  Recv :: "string list option"
  FuncName :: string
  Body :: "BlockStmt option"

datatype Decl = Decl_Func FuncDecl | Decl_Gen | Decl_Bad

record File =
  Decls :: "Decl list"

datatype FileSet = FileSet (base: int) (files: "string list")

definition NewFileSet :: FileSet where
  "NewFileSet = FileSet 1 []"

subsection \<open>Types and objects (go/types)\<close>

text \<open>
  \<open>Named n u\<close> is a \<open>*types.Named\<close> with its underlying type, \<open>Pointer t\<close> what
  \<open>types.NewPointer\<close> builds, \<open>Interface ms\<close> a \<open>*types.Interface\<close> with its methods
  (name and signature), \<open>Unnamed s\<close> any other type, by its text.
\<close>

datatype gotype =
    Named string gotype
  | Pointer gotype
  | Interface "(string \<times> string) list"
  | Unnamed string

fun Underlying :: "gotype \<Rightarrow> gotype" where
  "Underlying (Named n u) = u"
| "Underlying t = t"

fun isInterface :: "gotype \<Rightarrow> bool" where
  "isInterface (Interface ms) = True"
| "isInterface t = False"

text \<open>
  A \<open>types.Object\<close>. A \<open>Func\<close> carries its \<open>String()\<close> and its \<open>Scope()\<close>: \<open>None\<close>
  when the scope is \<open>nil\<close>, otherwise the scope's \<open>Pos()\<close>.
\<close>

datatype Object =
    TypeName gotype
  | Var gotype
  | Func gotype string "Pos option"

fun Type :: "Object \<Rightarrow> gotype" where
  "Type (TypeName t) = t"
| "Type (Var t) = t"
| "Type (Func t s sc) = t"

record Info =
  Defs :: "(Ident option \<times> Object option) list"

text \<open>
  The answers of the type checker: \<open>types.Implements\<close>, \<open>types.LookupFieldOrMethod\<close>
  (with its \<open>addressable\<close> flag and the package, by path) and \<open>Type.String\<close>.
\<close>

record typechecker =
  Implements :: "gotype \<Rightarrow> gotype \<Rightarrow> bool"
  LookupFieldOrMethod :: "gotype \<Rightarrow> bool \<Rightarrow> string \<Rightarrow> string \<Rightarrow> Object option"
  TypeString :: "gotype \<Rightarrow> string"

subsection \<open>Packages and queries (go/packages)\<close>

text \<open>
  Of a \<open>packages.Package\<close>, the fields that the source reads; \<open>Types\<close>, the
  \<open>*types.Package\<close>, is the package's path.
\<close>

record Package =
  ID :: string
  Types :: string
  Syntax :: "File list"
  TypesInfo :: Info

text \<open>
  \<open>LoadMode\<close> is a Go \<open>int\<close> used as a set of bits. The flags are those that
  \<open>go/packages\<close> declares, one bit each, in the order of their declaration there.
\<close>

type_synonym LoadMode = "64 word"

definition NeedName :: LoadMode where "NeedName = 1"
definition NeedFiles :: LoadMode where "NeedFiles = 2"
definition NeedCompiledGoFiles :: LoadMode where "NeedCompiledGoFiles = 4"
definition NeedImports :: LoadMode where "NeedImports = 8"
definition NeedDeps :: LoadMode where "NeedDeps = 16"
definition NeedExportsFile :: LoadMode where "NeedExportsFile = 32"
definition NeedTypes :: LoadMode where "NeedTypes = 64"
definition NeedSyntax :: LoadMode where "NeedSyntax = 128"
definition NeedTypesInfo :: LoadMode where "NeedTypesInfo = 256"

record Config =
  Mode :: LoadMode
  Dir :: string
  Env :: "string list"
  BuildFlags :: "string list"
  Fset :: "FileSet option"
  Tests :: bool

text \<open>\<open>LoadConfig\<close> is a pointer: \<open>None\<close> is \<open>nil\<close>, \<open>Some c\<close> points to the configuration \<open>c\<close>.\<close>

record Query =
  LoadConfig :: "Config option"
  Packages :: "string list"
  InterfacePackage :: string
  InterfaceName :: string
  Methods :: "string list"

type_synonym ResultMethods = "string \<rightharpoonup> FuncDecl"
type_synonym ResultTypes = "gotype \<rightharpoonup> ResultMethods"
type_synonym ResultPackages = "Package \<rightharpoonup> ResultTypes"

text \<open>
  \<open>packages.Load\<close> is handed the pointer to the caller's configuration: a loader gives
  the configuration as it is after the call (\<open>go/packages\<close> adds the files it parses to
  the configuration's file set), together with the error it returns or the packages.
\<close>

type_synonym loader = "Config \<Rightarrow> string list \<Rightarrow> Config \<times> (string + Package list)"

subsection \<open>The Program Loader\<close>

text \<open>
  Modelled from the spec: the state in which the Program Loader finds a requested
  package. \<open>packages.Load\<close> and the workspace it reads are not among the sources; the
  spec (4.1) names three ways in which a requested package fails to load: it cannot be
  found, it fails to parse, it fails to type-check.
\<close>

datatype loadState = CannotBeFound | FailsToParse | FailsToTypeCheck | Checked Package

text \<open>
  Modelled from the spec: \<open>Load(packageIdentifiers, config) -> Program | LoadError\<close>
  (4.1), standing for \<open>packages.Load\<close>, which is not among the sources. It "fails with
  \<open>LoadError\<close> if any requested package cannot be found, fails to parse, or fails to
  type-check; the error must name the offending package"; otherwise it gives the
  packages, in the order requested.
\<close>

fun loadAll :: "(string \<Rightarrow> loadState) \<Rightarrow> string list \<Rightarrow> string + Package list" where
  "loadAll workspace [] = Inr []"
| "loadAll workspace (packageIdentifier # packageIdentifiers) =
     (case workspace packageIdentifier of
        CannotBeFound \<Rightarrow> Inl (''package '' @ packageIdentifier @ '' cannot be found'')
      | FailsToParse \<Rightarrow> Inl (''package '' @ packageIdentifier @ '' fails to parse'')
      | FailsToTypeCheck \<Rightarrow> Inl (''package '' @ packageIdentifier @ '' fails to type-check'')
      | Checked pkg \<Rightarrow>
          (case loadAll workspace packageIdentifiers of
             Inl loadError \<Rightarrow> Inl loadError
           | Inr program \<Rightarrow> Inr (pkg # program)))"

text \<open>
  Modelled from the spec: the loader over the workspace that the load configuration
  designates, as a \<open>loader\<close> for \<open>Find\<close>. Its side effect is "none beyond reading"
  (4.1): it leaves the configuration as it is.
\<close>

definition Load :: "(Config \<Rightarrow> string \<Rightarrow> loadState) \<Rightarrow> loader" where
  "Load workspace config packageIdentifiers =
     (config, loadAll (workspace config) packageIdentifiers)"

subsection \<open>pkgMethodBodyDecls\<close>

text \<open>
  The index from body position to method declaration, over all files of the package in
  order; a later declaration at the same position replaces an earlier one.
  \<open>declFunc.Body.Pos()\<close> reads \<open>Lbrace\<close> of the body and panics when \<open>Body\<close> is \<open>nil\<close>.
\<close>

fun declsLoop :: "Decl list \<Rightarrow> (Pos \<rightharpoonup> FuncDecl) \<Rightarrow> (Pos \<rightharpoonup> FuncDecl) outcome" where
  "declsLoop [] allMethodDecls = Returns allMethodDecls"
| "declsLoop (Decl_Func declFunc # decls) allMethodDecls =
     (if Recv declFunc \<noteq> None then
        (case Body declFunc of
           None \<Rightarrow> Panics NilPointerDereference
         | Some body \<Rightarrow> declsLoop decls (allMethodDecls(Lbrace body \<mapsto> declFunc)))
      else declsLoop decls allMethodDecls)"
| "declsLoop (decl # decls) allMethodDecls = declsLoop decls allMethodDecls"

fun filesLoop :: "File list \<Rightarrow> (Pos \<rightharpoonup> FuncDecl) \<Rightarrow> (Pos \<rightharpoonup> FuncDecl) outcome" where
  "filesLoop [] allMethodDecls = Returns allMethodDecls"
| "filesLoop (astFile # astFiles) allMethodDecls =
     andThen (declsLoop (Decls astFile) allMethodDecls) (filesLoop astFiles)"

definition pkgMethodBodyDecls :: "Package \<Rightarrow> (Pos \<rightharpoonup> FuncDecl) outcome" where
  "pkgMethodBodyDecls pkg = filesLoop (Syntax pkg) Map.empty"

subsection \<open>findMethodDeclAST\<close>

definition findMethodDeclAST ::
  "typechecker \<Rightarrow> gotype \<Rightarrow> Package \<Rightarrow> string \<Rightarrow> (Pos \<rightharpoonup> FuncDecl) \<Rightarrow> FuncDecl outcome" where
  "findMethodDeclAST tc impl pkg methodName pkgMethodDecls =
     (case LookupFieldOrMethod tc impl True (Types pkg) methodName of
        None \<Rightarrow> Fails (MethodNotFound methodName (TypeString tc impl))
      | Some (Func t method scope) \<Rightarrow>
          (case scope of
             None \<Rightarrow> Panics NilPointerDereference
           | Some pos \<Rightarrow>
               (case pkgMethodDecls pos of
                  None \<Rightarrow> Fails (DeclNotFound method (TypeString tc impl))
                | Some methodDecl \<Rightarrow> Returns methodDecl))
      | Some _ \<Rightarrow> Fails (NotAFunction (TypeString tc impl)))"

subsection \<open>loadPkgTypeMethodASTs\<close>

fun methodsLoop ::
  "typechecker \<Rightarrow> gotype \<Rightarrow> Package \<Rightarrow> (Pos \<rightharpoonup> FuncDecl) \<Rightarrow> string list \<Rightarrow> ResultMethods
     \<Rightarrow> ResultMethods outcome" where
  "methodsLoop tc impl pkg methodDecls [] resultImpl = Returns resultImpl"
| "methodsLoop tc impl pkg methodDecls (methodName # methodNames) resultImpl =
     andThen (findMethodDeclAST tc impl pkg methodName methodDecls)
       (\<lambda>methodDecl. methodsLoop tc impl pkg methodDecls methodNames
                        (resultImpl(methodName \<mapsto> methodDecl)))"

fun typesLoop ::
  "typechecker \<Rightarrow> Package \<Rightarrow> string list \<Rightarrow> (Pos \<rightharpoonup> FuncDecl) \<Rightarrow> gotype list \<Rightarrow> ResultTypes
     \<Rightarrow> ResultTypes outcome" where
  "typesLoop tc pkg methodNames methodDecls [] result = Returns result"
| "typesLoop tc pkg methodNames methodDecls (impl # impls) result =
     andThen (methodsLoop tc impl pkg methodDecls methodNames Map.empty)
       (\<lambda>resultImpl. typesLoop tc pkg methodNames methodDecls impls (result(impl \<mapsto> resultImpl)))"

definition loadPkgTypeMethodASTs ::
  "typechecker \<Rightarrow> gotype list \<Rightarrow> Package \<Rightarrow> string list \<Rightarrow> ResultTypes outcome" where
  "loadPkgTypeMethodASTs tc impls pkg methodNames =
     andThen (pkgMethodBodyDecls pkg)
       (\<lambda>methodDecls. typesLoop tc pkg methodNames methodDecls impls Map.empty)"

subsection \<open>findInterfaceImplementations\<close>

text \<open>\<open>ident != nil && ident.Obj != nil && ident.Obj.Kind == ast.Typ\<close>\<close>

fun isTypeIdent :: "Ident option \<Rightarrow> bool" where
  "isTypeIdent None = False"
| "isTypeIdent (Some ident) = (case Obj ident of None \<Rightarrow> False | Some obj \<Rightarrow> Kind obj = Typ)"

text \<open>
  One pass over \<open>Defs\<close>. \<open>object.Type()\<close> on a \<open>nil\<close> object panics. A definition whose
  underlying type is an interface is skipped; otherwise the type itself is appended when
  it implements the interface, else its pointer type when that does.
\<close>

fun implsLoop ::
  "typechecker \<Rightarrow> gotype \<Rightarrow> (Ident option \<times> Object option) list \<Rightarrow> gotype list
     \<Rightarrow> gotype list outcome" where
  "implsLoop tc iface [] results = Returns results"
| "implsLoop tc iface ((ident, object) # defs) results =
     (if isTypeIdent ident then
        (case object of
           None \<Rightarrow> Panics NilPointerDereference
         | Some obj \<Rightarrow>
             (let typ = Type obj in
              if isInterface (Underlying typ) then implsLoop tc iface defs results
              else if Implements tc typ iface then implsLoop tc iface defs (results @ [typ])
              else if Implements tc (Pointer typ) iface
                then implsLoop tc iface defs (results @ [Pointer typ])
              else implsLoop tc iface defs results))
      else implsLoop tc iface defs results)"

definition findInterfaceImplementations ::
  "typechecker \<Rightarrow> gotype \<Rightarrow> Package \<Rightarrow> gotype list outcome" where
  "findInterfaceImplementations tc iface pkg = implsLoop tc iface (Defs (TypesInfo pkg)) []"

subsection \<open>findInterface\<close>

text \<open>The inner loop: the first entry of \<open>Defs\<close> that is a type identifier of the given name.\<close>

fun findIdent ::
  "(Ident option \<times> Object option) list \<Rightarrow> string \<Rightarrow> (Ident \<times> Object option) option" where
  "findIdent [] ifaceName = None"
| "findIdent ((None, object) # defs) ifaceName = findIdent defs ifaceName"
| "findIdent ((Some ident, object) # defs) ifaceName =
     (if isTypeIdent (Some ident) \<and> Name ident = ifaceName then Some (ident, object)
      else findIdent defs ifaceName)"

text \<open>
  The outer loop stops at the first package with the given \<open>ID\<close>. After it,
  \<open>ifaceObject.Type()\<close> panics on a \<open>nil\<close> object and the assertion to \<open>*types.Named\<close>
  panics on any other type.
\<close>

fun findInterface :: "Package list \<Rightarrow> string \<Rightarrow> string \<Rightarrow> gotype outcome" where
  "findInterface [] ifaceImportPath ifaceName = Fails (InterfacePackageNotFound ifaceImportPath)"
| "findInterface (pkg # loadedPkgs) ifaceImportPath ifaceName =
     (if ID pkg = ifaceImportPath then
        (case findIdent (Defs (TypesInfo pkg)) ifaceName of
           None \<Rightarrow> Fails (InterfaceTypeNotFound ifaceName ifaceImportPath)
         | Some (ifaceIdent, ifaceObject) \<Rightarrow>
             (case ifaceObject of
                None \<Rightarrow> Panics NilPointerDereference
              | Some obj \<Rightarrow>
                  (case Type obj of
                     Named n u \<Rightarrow> Returns (Named n u)
                   | _ \<Rightarrow> Panics TypeAssertionFailed)))
      else findInterface loadedPkgs ifaceImportPath ifaceName)"

subsection \<open>Find\<close>

definition requiredModes :: LoadMode where
  "requiredModes = NeedDeps OR NeedImports OR NeedFiles OR NeedName OR NeedSyntax OR NeedTypes
     OR NeedTypesInfo"

text \<open>The first four lines of \<open>Find\<close>: what they leave in the caller's configuration.\<close>

definition ensureModes :: "Config \<Rightarrow> Config" where
  "ensureModes c =
     (let c1 = c\<lparr>Mode := Mode c OR requiredModes\<rparr>
      in if Fset c1 = None then c1\<lparr>Fset := Some NewFileSet\<rparr> else c1)"

text \<open>
  The loop over the loaded packages. The assertion
  \<open>ifaceType.Underlying().(*types.Interface)\<close> is evaluated for each package and panics
  when the located type is not an interface.
\<close>

fun pkgsLoop ::
  "typechecker \<Rightarrow> gotype \<Rightarrow> string list \<Rightarrow> Package list \<Rightarrow> ResultPackages
     \<Rightarrow> ResultPackages outcome" where
  "pkgsLoop tc ifaceType methods [] result = Returns result"
| "pkgsLoop tc ifaceType methods (pkg # loadedPkgs) result =
     (if isInterface (Underlying ifaceType) then
        andThen (findInterfaceImplementations tc (Underlying ifaceType) pkg)
          (\<lambda>impls. andThen (loadPkgTypeMethodASTs tc impls pkg methods)
             (\<lambda>pkgResult. pkgsLoop tc ifaceType methods loadedPkgs (result(pkg \<mapsto> pkgResult))))
      else Panics TypeAssertionFailed)"

text \<open>
  \<open>Find\<close> returns the query as the caller finds it after the call, the configuration
  that \<open>query.LoadConfig\<close> points to included, and the outcome. Dereferencing a \<open>nil\<close>
  \<open>LoadConfig\<close> panics. The source assigns to the configuration's \<open>Mode\<close> and \<open>Fset\<close>
  and then hands the pointer to \<open>packages.Load\<close>; it assigns to no field of the query.
  The one call of the loader gives both the configuration as the loader leaves it (the
  first component) and the error or the packages (the second).
\<close>

definition Find :: "typechecker \<Rightarrow> loader \<Rightarrow> Query \<Rightarrow> Query \<times> ResultPackages outcome" where
  "Find tc load query =
     (case LoadConfig query of
        None \<Rightarrow> (query, Panics NilPointerDereference)
      | Some config \<Rightarrow>
          (query\<lparr>LoadConfig := Some (fst (load (ensureModes config) (Packages query)))\<rparr>,
           (case snd (load (ensureModes config) (Packages query)) of
              Inl err \<Rightarrow> Fails (LoadFailed err)
            | Inr loadedPkgs \<Rightarrow>
                andThen (findInterface loadedPkgs (InterfacePackage query) (InterfaceName query))
                  (\<lambda>ifaceType. pkgsLoop tc ifaceType (Methods query) loadedPkgs Map.empty))))"

subsection \<open>Notions used to state the properties\<close>

text \<open>The method declarations among a list of declarations: those with a receiver.\<close>

fun methodDecls :: "Decl list \<Rightarrow> FuncDecl list" where
  "methodDecls [] = []"
| "methodDecls (Decl_Func declFunc # decls) =
     (if Recv declFunc \<noteq> None then declFunc # methodDecls decls else methodDecls decls)"
| "methodDecls (decl # decls) = methodDecls decls"

text \<open>The objects of the type identifiers of \<open>Defs\<close>, in order.\<close>

definition candidates :: "(Ident option \<times> Object option) list \<Rightarrow> Object option list" where
  "candidates defs = map snd (filter (\<lambda>entry. isTypeIdent (fst entry)) defs)"

text \<open>What one candidate type adds to the list of implementations.\<close>

definition recorded :: "typechecker \<Rightarrow> gotype \<Rightarrow> gotype \<Rightarrow> gotype list" where
  "recorded tc iface typ =
     (if isInterface (Underlying typ) then []
      else if Implements tc typ iface then [typ]
      else if Implements tc (Pointer typ) iface then [Pointer typ]
      else [])"

fun recordedOf :: "typechecker \<Rightarrow> gotype \<Rightarrow> Object option \<Rightarrow> gotype list" where
  "recordedOf tc iface None = []"
| "recordedOf tc iface (Some obj) = recorded tc iface (Type obj)"

text \<open>
  Two packages that differ at most in the order in which \<open>Defs\<close>, a Go map, is
  iterated: the same entries, each as often in one as in the other.
\<close>

definition sameUpToOrder :: "Package \<Rightarrow> Package \<Rightarrow> bool" where
  "sameUpToOrder pkg1 pkg2 \<longleftrightarrow>
     ID pkg1 = ID pkg2 \<and> Types pkg1 = Types pkg2 \<and> Syntax pkg1 = Syntax pkg2 \<and>
     mset (Defs (TypesInfo pkg1)) = mset (Defs (TypesInfo pkg2))"

text \<open>The entries of \<open>Defs\<close> that \<open>findInterface\<close> accepts for a name.\<close>

definition namedTypeIdents :: "Package \<Rightarrow> string \<Rightarrow> (Ident option \<times> Object option) list" where
  "namedTypeIdents pkg name =
     filter (\<lambda>entry. isTypeIdent (fst entry) \<and> map_option Name (fst entry) = Some name)
       (Defs (TypesInfo pkg))"

subsection \<open>A small program\<close>

text \<open>
  Package \<open>geo\<close> declares the interface \<open>Shape\<close> with the method \<open>Area\<close> and a
  struct \<open>Base\<close> with the method \<open>Describe\<close>. Package \<open>shapes\<close> declares \<open>Circle\<close>,
  which embeds \<open>Base\<close> and has \<open>Area\<close> on a value receiver, \<open>Square\<close> with \<open>Area\<close> on
  a pointer receiver, and a second interface \<open>Named\<close>. Package \<open>asm\<close> declares a method
  without body.
\<close>

definition typeIdent :: "string \<Rightarrow> Ident option" where
  "typeIdent n = Some \<lparr>Name = n, Obj = Some \<lparr>Kind = Typ\<rparr>\<rparr>"

definition funcIdent :: "string \<Rightarrow> Ident option" where
  "funcIdent n = Some \<lparr>Name = n, Obj = Some \<lparr>Kind = Fun\<rparr>\<rparr>"

definition packageIdent :: "string \<Rightarrow> Ident option" where
  "packageIdent n = Some \<lparr>Name = n, Obj = None\<rparr>"

definition ex_ShapeMethods :: gotype where
  "ex_ShapeMethods = Interface [(''Area'', ''() float64'')]"

definition ex_Shape :: gotype where
  "ex_Shape = Named ''geo.Shape'' ex_ShapeMethods"

definition ex_Circle :: gotype where
  "ex_Circle = Named ''shapes.Circle'' (Unnamed ''struct{geo.Base; r float64}'')"

definition ex_Square :: gotype where
  "ex_Square = Named ''shapes.Square'' (Unnamed ''struct{side float64}'')"

definition ex_Base :: gotype where
  "ex_Base = Named ''geo.Base'' (Unnamed ''struct{}'')"

definition ex_Named :: gotype where
  "ex_Named = Named ''shapes.Named'' (Interface [(''Name'', ''() string'')])"

definition ex_CircleArea :: FuncDecl where
  "ex_CircleArea =
     \<lparr>Recv = Some [''Circle''], FuncName = ''Area'', Body = Some \<lparr>Lbrace = 120, Rbrace = 160\<rparr>\<rparr>"

definition ex_SquareArea :: FuncDecl where
  "ex_SquareArea =
     \<lparr>Recv = Some [''*Square''], FuncName = ''Area'', Body = Some \<lparr>Lbrace = 220, Rbrace = 260\<rparr>\<rparr>"

definition ex_NewCircle :: FuncDecl where
  "ex_NewCircle =
     \<lparr>Recv = None, FuncName = ''NewCircle'', Body = Some \<lparr>Lbrace = 300, Rbrace = 340\<rparr>\<rparr>"

definition ex_BaseDescribe :: FuncDecl where
  "ex_BaseDescribe =
     \<lparr>Recv = Some [''Base''], FuncName = ''Describe'', Body = Some \<lparr>Lbrace = 40, Rbrace = 70\<rparr>\<rparr>"

definition ex_Fast :: FuncDecl where
  "ex_Fast = \<lparr>Recv = Some [''*Square''], FuncName = ''Fast'', Body = None\<rparr>"

definition ex_BaseDescribeObj :: Object where
  "ex_BaseDescribeObj =
     Func (Unnamed ''func() string'') ''func (geo.Base).Describe() string'' (Some 40)"

definition ex_CircleAreaObj :: Object where
  "ex_CircleAreaObj =
     Func (Unnamed ''func() float64'') ''func (shapes.Circle).Area() float64'' (Some 120)"

definition ex_SquareAreaObj :: Object where
  "ex_SquareAreaObj =
     Func (Unnamed ''func() float64'') ''func (*shapes.Square).Area() float64'' (Some 220)"

definition ex_geo :: Package where
  "ex_geo =
     \<lparr>ID = ''geo'', Types = ''geo'',
      Syntax = [\<lparr>Decls = [Decl_Gen, Decl_Gen, Decl_Func ex_BaseDescribe]\<rparr>],
      TypesInfo = \<lparr>Defs = [(packageIdent ''geo'', None),
                           (typeIdent ''Shape'', Some (TypeName ex_Shape)),
                           (typeIdent ''Base'', Some (TypeName ex_Base)),
                           (funcIdent ''Describe'', Some ex_BaseDescribeObj)]\<rparr>\<rparr>"

definition ex_shapes :: Package where
  "ex_shapes =
     \<lparr>ID = ''shapes'', Types = ''shapes'',
      Syntax = [\<lparr>Decls = [Decl_Gen, Decl_Func ex_CircleArea, Decl_Func ex_NewCircle]\<rparr>,
                \<lparr>Decls = [Decl_Gen, Decl_Func ex_SquareArea]\<rparr>],
      TypesInfo = \<lparr>Defs = [(packageIdent ''shapes'', None),
                           (typeIdent ''Circle'', Some (TypeName ex_Circle)),
                           (funcIdent ''Area'', Some ex_CircleAreaObj),
                           (typeIdent ''Named'', Some (TypeName ex_Named)),
                           (typeIdent ''Square'', Some (TypeName ex_Square)),
                           (funcIdent ''Area'', Some ex_SquareAreaObj)]\<rparr>\<rparr>"

fun ex_TypeString :: "gotype \<Rightarrow> string" where
  "ex_TypeString (Named n u) = n"
| "ex_TypeString (Pointer t) = ''*'' @ ex_TypeString t"
| "ex_TypeString (Interface ms) = ''interface{'' @ concat (map (\<lambda>(n, s). n @ s) ms) @ ''}''"
| "ex_TypeString (Unnamed s) = s"

definition ex_Implements :: "gotype \<Rightarrow> gotype \<Rightarrow> bool" where
  "ex_Implements t iface =
     (iface = ex_ShapeMethods \<and> (t = ex_Circle \<or> t = Pointer ex_Circle \<or> t = Pointer ex_Square))"

definition ex_Lookup :: "gotype \<Rightarrow> bool \<Rightarrow> string \<Rightarrow> string \<Rightarrow> Object option" where
  "ex_Lookup t addressable pkg name =
     (if name = ''Area'' then
        (if t = ex_Circle \<or> t = Pointer ex_Circle then Some ex_CircleAreaObj
         else if t = Pointer ex_Square \<or> (t = ex_Square \<and> addressable) then Some ex_SquareAreaObj
         else None)
      else if name = ''Describe'' \<and> (t = ex_Circle \<or> t = Pointer ex_Circle)
        then Some ex_BaseDescribeObj
      else if name = ''r'' \<and> (t = ex_Circle \<or> t = Pointer ex_Circle)
        then Some (Var (Unnamed ''float64''))
      else None)"

definition ex_tc :: typechecker where
  "ex_tc = \<lparr>Implements = ex_Implements, LookupFieldOrMethod = ex_Lookup, TypeString = ex_TypeString\<rparr>"

definition ex_asm :: Package where
  "ex_asm =
     \<lparr>ID = ''asm'', Types = ''asm'', Syntax = [\<lparr>Decls = [Decl_Gen, Decl_Func ex_Fast]\<rparr>],
      TypesInfo = \<lparr>Defs = [(packageIdent ''asm'', None)]\<rparr>\<rparr>"

text \<open>
  Package \<open>rings\<close> is \<open>shapes\<close> with one more declaration, the alias
  \<open>type Ring = *Circle\<close>: its identifier denotes the pointer type itself.
\<close>

definition ex_rings :: Package where
  "ex_rings =
     ex_shapes\<lparr>ID := ''rings'',
       TypesInfo := \<lparr>Defs = Defs (TypesInfo ex_shapes) @
                                [(typeIdent ''Ring'', Some (TypeName (Pointer ex_Circle)))]\<rparr>\<rparr>"

text \<open>
  The loader of the small program parses three files into the configuration's file set
  and leaves the rest of the configuration as it is.
\<close>

definition ex_parsed :: "FileSet \<Rightarrow> FileSet" where
  "ex_parsed fset =
     FileSet (base fset + 399)
       (files fset @ [''geo/geo.go'', ''shapes/circle.go'', ''shapes/square.go''])"

definition ex_load :: loader where
  "ex_load config patterns =
     (if patterns = [''geo'', ''shapes'']
        then (config\<lparr>Fset := map_option ex_parsed (Fset config)\<rparr>, Inr [ex_geo, ex_shapes])
      else if patterns = [''geo'', ''rings'']
        then (config\<lparr>Fset := map_option ex_parsed (Fset config)\<rparr>, Inr [ex_geo, ex_rings])
      else (config, Inl ''pattern matched no packages''))"

text \<open>A workspace in which \<open>broken\<close> does not parse and nothing else is found.\<close>

definition ex_workspace :: "Config \<Rightarrow> string \<Rightarrow> loadState" where
  "ex_workspace config packageIdentifier =
     (if packageIdentifier = ''geo'' then Checked ex_geo
      else if packageIdentifier = ''shapes'' then Checked ex_shapes
      else if packageIdentifier = ''broken'' then FailsToParse
      else CannotBeFound)"

definition ex_config :: Config where
  "ex_config = \<lparr>Mode = 0, Dir = ''.'', Env = [], BuildFlags = [], Fset = None, Tests = False\<rparr>"

definition ex_query :: Query where
  "ex_query =
     \<lparr>LoadConfig = Some ex_config, Packages = [''geo'', ''shapes''],
      InterfacePackage = ''geo'', InterfaceName = ''Shape'', Methods = [''Area'']\<rparr>"

text \<open>
  \<open>geo\<close> with one more type of the name \<open>Shape\<close>, a \<open>type Shape struct{}\<close> declared
  inside a function: \<open>Defs\<close> then holds two type identifiers of that name. The two
  packages are the same package with \<open>Defs\<close> iterated in two orders.
\<close>

definition ex_LocalShape :: gotype where
  "ex_LocalShape = Named ''geo.Shape'' (Unnamed ''struct{}'')"

definition ex_geo_first :: Package where
  "ex_geo_first =
     ex_geo\<lparr>TypesInfo := \<lparr>Defs = Defs (TypesInfo ex_geo) @
                                [(typeIdent ''Shape'', Some (TypeName ex_LocalShape))]\<rparr>\<rparr>"

definition ex_geo_second :: Package where
  "ex_geo_second =
     ex_geo\<lparr>TypesInfo := \<lparr>Defs = (typeIdent ''Shape'', Some (TypeName ex_LocalShape)) #
                                Defs (TypesInfo ex_geo)\<rparr>\<rparr>"

text \<open>\<open>shapes\<close> with \<open>Defs\<close> iterated backwards.\<close>

definition ex_shapes_backwards :: Package where
  "ex_shapes_backwards = ex_shapes\<lparr>TypesInfo := \<lparr>Defs = rev (Defs (TypesInfo ex_shapes))\<rparr>\<rparr>"

text \<open>A loader that parses the same three files and returns the given packages.\<close>

definition ex_loads :: "Package list \<Rightarrow> loader" where
  "ex_loads pkgs config patterns = (config\<lparr>Fset := map_option ex_parsed (Fset config)\<rparr>, Inr pkgs)"

section \<open>Properties\<close>

subsection \<open>Sequencing and map updates\<close>

lemma andThen_Returns: "andThen x f = Returns y \<longleftrightarrow> (\<exists>a. x = Returns a \<and> f a = Returns y)"
  by (cases x) auto

lemma upd_fold: "(\<lambda>a. if a = k then Some v else m a) = m(k \<mapsto> v)"
  by (simp add: fun_upd_def)

subsection \<open>The index of method declarations\<close>

lemma set_methodDecls:
  "f \<in> set (methodDecls ds) \<longleftrightarrow> Decl_Func f \<in> set ds \<and> Recv f \<noteq> None"
  by (induction ds rule: methodDecls.induct) auto

lemma declsLoop_not_Fails: "declsLoop ds m \<noteq> Fails e"
  by (induction ds m rule: declsLoop.induct) (auto simp: upd_fold split: option.splits)

lemma declsLoop_Panics:
  "declsLoop ds m = Panics p \<longleftrightarrow>
     p = NilPointerDereference \<and> (\<exists>f \<in> set (methodDecls ds). Body f = None)"
  by (induction ds m rule: declsLoop.induct) (auto simp: upd_fold split: option.splits)



lemma declsLoop_append:
  "declsLoop (xs @ ys) m = andThen (declsLoop xs m) (declsLoop ys)"
  by (induction xs m rule: declsLoop.induct) (auto simp: upd_fold split: option.splits)

lemma filesLoop_declsLoop: "filesLoop fs m = declsLoop (concat (map Decls fs)) m"
proof (induction fs arbitrary: m)
  case (Cons f fs)
  show ?case by (cases "declsLoop (Decls f) m") (simp_all add: declsLoop_append Cons)
qed simp

subsection \<open>The candidates of a package\<close>

lemma candidates_Nil: "candidates [] = []"
  by (simp add: candidates_def)

lemma candidates_Cons:
  "candidates ((ident, object) # defs) =
     (if isTypeIdent ident then object # candidates defs else candidates defs)"
  by (simp add: candidates_def)

lemma implsLoop_eq:
  "implsLoop tc iface defs results =
     (if None \<in> set (candidates defs) then Panics NilPointerDereference
      else Returns (results @ concat (map (recordedOf tc iface) (candidates defs))))"
proof (induction defs arbitrary: results)
  case Nil
  show ?case by (simp add: candidates_Nil)
next
  case (Cons entry defs)
  obtain ident object where entry: "entry = (ident, object)" by (cases entry)
  show ?case
  proof (cases "isTypeIdent ident")
    case True
    then show ?thesis
      by (cases object) (simp_all add: entry candidates_Cons Cons recorded_def Let_def)
  next
    case False
    then show ?thesis by (simp add: entry candidates_Cons Cons)
  qed
qed

lemma findInterfaceImplementations_eq:
  "findInterfaceImplementations tc iface pkg =
     (if None \<in> set (candidates (Defs (TypesInfo pkg))) then Panics NilPointerDereference
      else Returns (concat (map (recordedOf tc iface) (candidates (Defs (TypesInfo pkg))))))"
  by (simp add: findInterfaceImplementations_def implsLoop_eq)

lemma set_candidates:
  "object \<in> set (candidates defs) \<longleftrightarrow> (\<exists>ident. (ident, object) \<in> set defs \<and> isTypeIdent ident)"
  by (force simp: candidates_def)

subsection \<open>The loops over method names, types and packages\<close>


lemma methodsLoop_Returns:
  "methodsLoop tc impl pkg idx ms rm = Returns rm' \<Longrightarrow>
     (\<forall>m \<in> set ms. \<exists>d. findMethodDeclAST tc impl pkg m idx = Returns d \<and> rm' m = Some d) \<and>
     (\<forall>m. m \<notin> set ms \<longrightarrow> rm' m = rm m)"
proof (induction ms arbitrary: rm)
  case (Cons x xs)
  from Cons.prems obtain d where d: "findMethodDeclAST tc impl pkg x idx = Returns d"
    and rest: "methodsLoop tc impl pkg idx xs (rm(x \<mapsto> d)) = Returns rm'"
    by (auto simp: andThen_Returns)
  from Cons.IH [OF rest] have
    1: "\<forall>m \<in> set xs. \<exists>d. findMethodDeclAST tc impl pkg m idx = Returns d \<and> rm' m = Some d"
    and 2: "\<forall>m. m \<notin> set xs \<longrightarrow> rm' m = (rm(x \<mapsto> d)) m"
    by blast+
  have "rm' x = Some d"
  proof (cases "x \<in> set xs")
    case True
    with 1 d show ?thesis by fastforce
  next
    case False
    with 2 show ?thesis by simp
  qed
  with 1 2 d show ?case by auto
qed simp



lemma typesLoop_Returns:
  "typesLoop tc pkg ms idx impls rt = Returns rt' \<Longrightarrow>
     (\<forall>impl \<in> set impls. \<exists>rm. methodsLoop tc impl pkg idx ms Map.empty = Returns rm \<and> rt' impl = Some rm) \<and>
     (\<forall>t. t \<notin> set impls \<longrightarrow> rt' t = rt t)"
proof (induction impls arbitrary: rt)
  case (Cons x xs)
  from Cons.prems obtain rm where rm: "methodsLoop tc x pkg idx ms Map.empty = Returns rm"
    and rest: "typesLoop tc pkg ms idx xs (rt(x \<mapsto> rm)) = Returns rt'"
    by (auto simp: andThen_Returns)
  from Cons.IH [OF rest] have
    1: "\<forall>impl \<in> set xs. \<exists>rm. methodsLoop tc impl pkg idx ms Map.empty = Returns rm \<and> rt' impl = Some rm"
    and 2: "\<forall>t. t \<notin> set xs \<longrightarrow> rt' t = (rt(x \<mapsto> rm)) t"
    by blast+
  have "rt' x = Some rm"
  proof (cases "x \<in> set xs")
    case True
    with 1 rm show ?thesis by fastforce
  next
    case False
    with 2 show ?thesis by simp
  qed
  with 1 2 rm show ?case by auto
qed simp

lemma typesLoop_all_Returns:
  "\<forall>impl \<in> set impls. \<exists>rm. methodsLoop tc impl pkg idx ms Map.empty = Returns rm \<Longrightarrow>
     \<exists>rt'. typesLoop tc pkg ms idx impls rt = Returns rt'"
proof (induction impls arbitrary: rt)
  case (Cons x xs)
  then obtain rm where rm: "methodsLoop tc x pkg idx ms Map.empty = Returns rm" by auto
  from Cons.IH [of "rt(x \<mapsto> rm)"] Cons.prems show ?case
    using rm by (simp add: upd_fold)
qed simp


lemma pkgsLoop_Returns:
  "pkgsLoop tc T ms pkgs r = Returns r' \<Longrightarrow>
     (\<forall>pkg \<in> set pkgs. \<exists>impls rt. findInterfaceImplementations tc (Underlying T) pkg = Returns impls
         \<and> loadPkgTypeMethodASTs tc impls pkg ms = Returns rt \<and> r' pkg = Some rt) \<and>
     (\<forall>p. p \<notin> set pkgs \<longrightarrow> r' p = r p)"
proof (induction pkgs arbitrary: r)
  case (Cons x xs)
  from Cons.prems have iface: "isInterface (Underlying T)"
    by (auto split: if_splits)
  with Cons.prems obtain impls rt
    where impls: "findInterfaceImplementations tc (Underlying T) x = Returns impls"
      and rt: "loadPkgTypeMethodASTs tc impls x ms = Returns rt"
      and rest: "pkgsLoop tc T ms xs (r(x \<mapsto> rt)) = Returns r'"
    by (auto simp: andThen_Returns)
  from Cons.IH [OF rest] have
    1: "\<forall>pkg \<in> set xs. \<exists>impls rt. findInterfaceImplementations tc (Underlying T) pkg = Returns impls
         \<and> loadPkgTypeMethodASTs tc impls pkg ms = Returns rt \<and> r' pkg = Some rt"
    and 2: "\<forall>p. p \<notin> set xs \<longrightarrow> r' p = (r(x \<mapsto> rt)) p"
    by blast+
  have "r' x = Some rt"
  proof (cases "x \<in> set xs")
    case True
    with 1 impls rt show ?thesis by fastforce
  next
    case False
    with 2 show ?thesis by simp
  qed
  with 1 2 impls rt show ?case by auto
qed simp

lemma Find_Returns:
  assumes "snd (Find tc load query) = Returns result"
  shows "\<exists>config loadedPkgs ifaceType.
           LoadConfig query = Some config \<and>
           snd (load (ensureModes config) (Packages query)) = Inr loadedPkgs \<and>
           findInterface loadedPkgs (InterfacePackage query) (InterfaceName query) = Returns ifaceType \<and>
           pkgsLoop tc ifaceType (Methods query) loadedPkgs Map.empty = Returns result"
  using assms by (auto simp: Find_def andThen_Returns split: option.splits sum.splits)

subsection \<open>The small program, evaluated\<close>

lemma ex_types_distinct:
  "ex_Circle \<noteq> ex_Square" "ex_Circle \<noteq> Pointer t" "ex_Square \<noteq> Pointer t"
  "ex_Named \<noteq> Pointer t" "ex_Named \<noteq> ex_Circle" "ex_Named \<noteq> ex_Square"
  "ex_Square \<noteq> ex_Circle" "Pointer t \<noteq> ex_Circle" "Pointer t \<noteq> ex_Square"
  by (simp_all add: ex_Circle_def ex_Square_def ex_Named_def)

lemma ex_impls_geo: "findInterfaceImplementations ex_tc ex_ShapeMethods ex_geo = Returns []"
  by (simp add: findInterfaceImplementations_def ex_geo_def typeIdent_def packageIdent_def
      funcIdent_def ex_Shape_def ex_ShapeMethods_def ex_tc_def ex_Implements_def)
     (simp add: ex_Base_def ex_Circle_def ex_Square_def)

lemma ex_impls_shapes:
  "findInterfaceImplementations ex_tc ex_ShapeMethods ex_shapes = Returns [ex_Circle, Pointer ex_Square]"
  by (simp add: findInterfaceImplementations_def ex_shapes_def typeIdent_def packageIdent_def
      funcIdent_def ex_tc_def ex_Implements_def ex_types_distinct)
     (simp add: ex_Circle_def ex_Square_def ex_Named_def)

lemma ex_index_geo: "pkgMethodBodyDecls ex_geo = Returns [40 \<mapsto> ex_BaseDescribe]"
  by (simp add: pkgMethodBodyDecls_def ex_geo_def) (simp add: ex_BaseDescribe_def)

lemma ex_index_shapes:
  "pkgMethodBodyDecls ex_shapes = Returns [120 \<mapsto> ex_CircleArea, 220 \<mapsto> ex_SquareArea]"
  by (simp add: pkgMethodBodyDecls_def ex_shapes_def)
     (simp add: ex_CircleArea_def ex_SquareArea_def ex_NewCircle_def)

lemma ex_findInterface: "findInterface [ex_geo, ex_shapes] ''geo'' ''Shape'' = Returns ex_Shape"
  by (simp add: ex_geo_def typeIdent_def packageIdent_def) (simp add: ex_Shape_def)

lemma ex_geo_shapes: "ex_geo \<noteq> ex_shapes"
  by (simp add: ex_geo_def ex_shapes_def)

lemma ex_lookups:
  "findMethodDeclAST ex_tc ex_Circle ex_shapes ''Area'' [120 \<mapsto> ex_CircleArea, 220 \<mapsto> ex_SquareArea]
     = Returns ex_CircleArea"
  "findMethodDeclAST ex_tc (Pointer ex_Square) ex_shapes ''Area''
     [120 \<mapsto> ex_CircleArea, 220 \<mapsto> ex_SquareArea] = Returns ex_SquareArea"
  by (simp_all add: findMethodDeclAST_def ex_tc_def ex_Lookup_def ex_types_distinct
      ex_CircleAreaObj_def ex_SquareAreaObj_def)

lemma ex_load_geo: "loadPkgTypeMethodASTs ex_tc [] ex_geo ms = Returns Map.empty"
  by (simp add: loadPkgTypeMethodASTs_def ex_index_geo)

lemma ex_load_shapes:
  "loadPkgTypeMethodASTs ex_tc [ex_Circle, Pointer ex_Square] ex_shapes [''Area''] =
     Returns [ex_Circle \<mapsto> [''Area'' \<mapsto> ex_CircleArea],
              Pointer ex_Square \<mapsto> [''Area'' \<mapsto> ex_SquareArea]]"
  by (simp add: loadPkgTypeMethodASTs_def ex_index_shapes ex_lookups)

lemma ex_Underlying: "Underlying ex_Shape = ex_ShapeMethods" "isInterface ex_ShapeMethods"
  by (simp_all add: ex_Shape_def ex_ShapeMethods_def)

lemma ex_pkgsLoop:
  "pkgsLoop ex_tc ex_Shape [''Area''] [ex_geo, ex_shapes] Map.empty =
     Returns [ex_geo \<mapsto> Map.empty,
              ex_shapes \<mapsto> [ex_Circle \<mapsto> [''Area'' \<mapsto> ex_CircleArea],
                            Pointer ex_Square \<mapsto> [''Area'' \<mapsto> ex_SquareArea]]]"
  by (simp add: ex_Underlying ex_impls_geo ex_impls_shapes ex_load_geo ex_load_shapes)

lemma ex_Find:
  "snd (Find ex_tc ex_load ex_query) =
     Returns [ex_geo \<mapsto> Map.empty,
              ex_shapes \<mapsto> [ex_Circle \<mapsto> [''Area'' \<mapsto> ex_CircleArea],
                            Pointer ex_Square \<mapsto> [''Area'' \<mapsto> ex_SquareArea]]]"
  by (simp add: Find_def ex_query_def ex_load_def ex_findInterface ex_pkgsLoop
      del: findInterface.simps pkgsLoop.simps)

subsection \<open>What a result holds\<close>

lemma loadPkgTypeMethodASTs_Returns:
  assumes "loadPkgTypeMethodASTs tc impls pkg ms = Returns rt"
  shows "\<exists>idx. pkgMethodBodyDecls pkg = Returns idx \<and> dom rt = set impls \<and>
           (\<forall>impl \<in> set impls. \<exists>rm. rt impl = Some rm \<and> dom rm = set ms \<and>
              (\<forall>m \<in> set ms. \<exists>d. findMethodDeclAST tc impl pkg m idx = Returns d \<and> rm m = Some d))"
proof -
  from assms obtain idx where idx: "pkgMethodBodyDecls pkg = Returns idx"
    and loop: "typesLoop tc pkg ms idx impls Map.empty = Returns rt"
    by (auto simp: loadPkgTypeMethodASTs_def andThen_Returns)
  note tl = typesLoop_Returns [OF loop]
  have dom: "dom rt = set impls"
    using tl by (auto simp: dom_def)
  have "\<exists>rm. rt impl = Some rm \<and> dom rm = set ms \<and>
           (\<forall>m \<in> set ms. \<exists>d. findMethodDeclAST tc impl pkg m idx = Returns d \<and> rm m = Some d)"
    if "impl \<in> set impls" for impl
  proof -
    from tl that obtain rm where rm: "methodsLoop tc impl pkg idx ms Map.empty = Returns rm"
      and rt: "rt impl = Some rm" by blast
    note ml = methodsLoop_Returns [OF rm]
    have "dom rm = set ms"
      using ml by (auto simp: dom_def)
    with ml rt show ?thesis by blast
  qed
  with idx dom show ?thesis by blast
qed

lemma Find_Returns_entries:
  assumes "snd (Find tc load query) = Returns result"
      and "LoadConfig query = Some config"
      and "snd (load (ensureModes config) (Packages query)) = Inr loadedPkgs"
  shows "\<exists>ifaceType.
           findInterface loadedPkgs (InterfacePackage query) (InterfaceName query) = Returns ifaceType \<and>
           dom result = set loadedPkgs \<and>
           (\<forall>pkg \<in> set loadedPkgs. \<exists>impls rt.
              findInterfaceImplementations tc (Underlying ifaceType) pkg = Returns impls \<and>
              loadPkgTypeMethodASTs tc impls pkg (Methods query) = Returns rt \<and>
              result pkg = Some rt)"
proof -
  from Find_Returns [OF assms(1)] assms(2,3) obtain ifaceType
    where iface: "findInterface loadedPkgs (InterfacePackage query) (InterfaceName query) = Returns ifaceType"
      and loop: "pkgsLoop tc ifaceType (Methods query) loadedPkgs Map.empty = Returns result"
    by auto
  note pl = pkgsLoop_Returns [OF loop]
  have "dom result = set loadedPkgs"
    using pl by (auto simp: dom_def)
  with iface pl show ?thesis by blast
qed

subsection \<open>The first failure\<close>



lemma pkgsLoop_all_Returns:
  assumes "isInterface (Underlying T)"
      and "\<forall>p \<in> set pkgs. \<exists>impls rt. findInterfaceImplementations tc (Underlying T) p = Returns impls
             \<and> loadPkgTypeMethodASTs tc impls p ms = Returns rt"
  shows "\<exists>r'. pkgsLoop tc T ms pkgs r = Returns r'"
  using assms(2)
proof (induction pkgs arbitrary: r)
  case (Cons x xs)
  then obtain impls rt where "findInterfaceImplementations tc (Underlying T) x = Returns impls"
    and "loadPkgTypeMethodASTs tc impls x ms = Returns rt" by auto
  with Cons.IH [of "r(x \<mapsto> rt)"] Cons.prems assms(1) show ?case
    by (simp add: upd_fold)
qed simp



subsection \<open>Where a failure comes from\<close>

lemma pkgMethodBodyDecls_eq:
  "pkgMethodBodyDecls pkg = declsLoop (concat (map Decls (Syntax pkg))) Map.empty"
  by (simp add: pkgMethodBodyDecls_def filesLoop_declsLoop)

lemma set_methodDecls_Syntax:
  "f \<in> set (methodDecls (concat (map Decls (Syntax pkg)))) \<longleftrightarrow>
     (\<exists>astFile \<in> set (Syntax pkg). Decl_Func f \<in> set (Decls astFile)) \<and> Recv f \<noteq> None"
  by (auto simp: set_methodDecls)

lemma findInterface_not_LoadFailed:
  "findInterface pkgs path name \<noteq> Fails (LoadFailed err)"
  by (induction pkgs) (auto split: option.splits gotype.splits)

lemma findMethodDeclAST_not_LoadFailed:
  "findMethodDeclAST tc impl pkg m idx \<noteq> Fails (LoadFailed err)"
  by (auto simp: findMethodDeclAST_def split: option.splits Object.splits)

lemma methodsLoop_Fails:
  "methodsLoop tc impl pkg idx ms rm = Fails e \<Longrightarrow>
     \<exists>m \<in> set ms. findMethodDeclAST tc impl pkg m idx = Fails e"
proof (induction ms arbitrary: rm)
  case (Cons x xs)
  then show ?case
    by (cases "findMethodDeclAST tc impl pkg x idx") (auto simp: upd_fold)
qed simp

lemma typesLoop_Fails:
  "typesLoop tc pkg ms idx impls rt = Fails e \<Longrightarrow>
     \<exists>impl \<in> set impls. \<exists>m \<in> set ms. findMethodDeclAST tc impl pkg m idx = Fails e"
proof (induction impls arbitrary: rt)
  case (Cons x xs)
  then show ?case
    by (cases "methodsLoop tc x pkg idx ms Map.empty") (auto simp: upd_fold dest: methodsLoop_Fails)
qed simp

lemma loadPkgTypeMethodASTs_Fails:
  assumes "loadPkgTypeMethodASTs tc impls pkg ms = Fails e"
  shows "\<exists>idx. pkgMethodBodyDecls pkg = Returns idx \<and>
           (\<exists>impl \<in> set impls. \<exists>m \<in> set ms. findMethodDeclAST tc impl pkg m idx = Fails e)"
proof (cases "pkgMethodBodyDecls pkg")
  case (Returns idx)
  with assms show ?thesis
    by (auto simp: loadPkgTypeMethodASTs_def dest: typesLoop_Fails)
next
  case (Fails e')
  then show ?thesis by (simp add: pkgMethodBodyDecls_eq declsLoop_not_Fails)
next
  case (Panics p)
  with assms show ?thesis by (simp add: loadPkgTypeMethodASTs_def)
qed

lemma findInterfaceImplementations_not_Fails:
  "findInterfaceImplementations tc iface pkg \<noteq> Fails e"
  by (simp add: findInterfaceImplementations_eq)

lemma pkgsLoop_Fails:
  "pkgsLoop tc T ms pkgs r = Fails e \<Longrightarrow>
     \<exists>pkg \<in> set pkgs. \<exists>impls idx.
        findInterfaceImplementations tc (Underlying T) pkg = Returns impls \<and>
        pkgMethodBodyDecls pkg = Returns idx \<and>
        (\<exists>impl \<in> set impls. \<exists>m \<in> set ms. findMethodDeclAST tc impl pkg m idx = Fails e)"
proof (induction pkgs arbitrary: r)
  case (Cons x xs)
  from Cons.prems have iface: "isInterface (Underlying T)"
    by (auto split: if_splits)
  show ?case
  proof (cases "findInterfaceImplementations tc (Underlying T) x")
    case (Returns impls)
    show ?thesis
    proof (cases "loadPkgTypeMethodASTs tc impls x ms")
      case rt: (Returns rt)
      with Cons.prems iface Returns
      have "pkgsLoop tc T ms xs (r(x \<mapsto> rt)) = Fails e" by simp
      from Cons.IH [OF this] show ?thesis by auto
    next
      case (Fails e')
      with Cons.prems iface Returns have "e' = e" by simp
      with Fails loadPkgTypeMethodASTs_Fails [of tc impls x ms e] Returns
      show ?thesis by auto
    next
      case (Panics p)
      with Cons.prems iface Returns show ?thesis by simp
    qed
  next
    case (Fails e')
    then show ?thesis by (simp add: findInterfaceImplementations_not_Fails)
  next
    case (Panics p)
    with Cons.prems iface show ?thesis by simp
  qed
qed simp

lemma pkgsLoop_not_LoadFailed:
  "pkgsLoop tc T ms pkgs r \<noteq> Fails (LoadFailed err)"
  using pkgsLoop_Fails [of tc T ms pkgs r "LoadFailed err"]
  by (auto simp: findMethodDeclAST_not_LoadFailed)

lemma Find_LoadFailed_iff:
  assumes "LoadConfig query = Some config"
  shows "snd (Find tc load query) = Fails (LoadFailed err) \<longleftrightarrow>
            snd (load (ensureModes config) (Packages query)) = Inl err"
proof (cases "snd (load (ensureModes config) (Packages query))")
  case (Inl err')
  with assms show ?thesis by (simp add: Find_def)
next
  case (Inr pkgs)
  with assms findInterface_not_LoadFailed [of pkgs "InterfacePackage query" "InterfaceName query" err]
  show ?thesis
    by (cases "findInterface pkgs (InterfacePackage query) (InterfaceName query)")
       (auto simp: Find_def pkgsLoop_not_LoadFailed)
qed

lemma loadAll_names_offender:
  assumes "\<exists>id \<in> set ids. \<forall>pkg. ws id \<noteq> Checked pkg"
  shows "\<exists>id \<in> set ids. (\<forall>pkg. ws id \<noteq> Checked pkg) \<and>
           (\<exists>pre post. loadAll ws ids = Inl (pre @ id @ post))"
  using assms
proof (induction ids)
  case (Cons x xs)
  show ?case
  proof (cases "ws x")
    case (Checked pkg)
    with Cons.prems have "\<exists>id \<in> set xs. \<forall>pkg. ws id \<noteq> Checked pkg" by auto
    from Cons.IH [OF this] obtain id pre post where "id \<in> set xs" "\<forall>pkg. ws id \<noteq> Checked pkg"
      "loadAll ws xs = Inl (pre @ id @ post)" by blast
    with Checked show ?thesis by auto
  qed (auto intro: exI [of _ "''package ''"])
qed simp

subsection \<open>Locating the interface\<close>

lemma findIdent_None:
  "findIdent defs name = None \<longleftrightarrow>
     (\<forall>entry \<in> set defs. \<not> (isTypeIdent (fst entry) \<and> map_option Name (fst entry) = Some name))"
proof (induction defs)
  case (Cons entry defs)
  obtain ident object where "entry = (ident, object)" by (cases entry)
  with Cons show ?case by (cases ident) auto
qed simp

lemma findInterface_no_package:
  "\<forall>pkg \<in> set loadedPkgs. ID pkg \<noteq> path \<Longrightarrow>
     findInterface loadedPkgs path name = Fails (InterfacePackageNotFound path)"
  by (induction loadedPkgs) auto

lemma findInterface_no_type:
  "find (\<lambda>pkg. ID pkg = path) loadedPkgs = Some pkg \<Longrightarrow>
   findIdent (Defs (TypesInfo pkg)) name = None \<Longrightarrow>
     findInterface loadedPkgs path name = Fails (InterfaceTypeNotFound name path)"
  by (induction loadedPkgs) (auto split: if_splits)

lemma Find_findInterface_Fails:
  "LoadConfig query = Some config \<Longrightarrow>
   snd (load (ensureModes config) (Packages query)) = Inr loadedPkgs \<Longrightarrow>
   findInterface loadedPkgs (InterfacePackage query) (InterfaceName query) = Fails e \<Longrightarrow>
     snd (Find tc load query) = Fails e"
  by (simp add: Find_def)

subsection \<open>The recorded types as a set\<close>

lemma set_recorded:
  "x \<in> set (recorded tc iface typ) \<longleftrightarrow>
     \<not> isInterface (Underlying typ) \<and>
     (typ = x \<and> Implements tc typ iface \<or>
      Pointer typ = x \<and> \<not> Implements tc typ iface \<and> Implements tc (Pointer typ) iface)"
  by (auto simp: recorded_def)

lemma findInterfaceImplementations_set:
  assumes "findInterfaceImplementations tc iface pkg = Returns results"
  shows "x \<in> set results \<longleftrightarrow>
           (\<exists>ident obj. (ident, Some obj) \<in> set (Defs (TypesInfo pkg)) \<and> isTypeIdent ident \<and>
              x \<in> set (recorded tc iface (Type obj)))"
proof -
  from assms have nonnil: "None \<notin> set (candidates (Defs (TypesInfo pkg)))"
    and res: "results = concat (map (recordedOf tc iface) (candidates (Defs (TypesInfo pkg))))"
    by (auto simp: findInterfaceImplementations_eq split: if_splits)
  have "x \<in> set results \<longleftrightarrow>
          (\<exists>object \<in> set (candidates (Defs (TypesInfo pkg))). x \<in> set (recordedOf tc iface object))"
    by (simp add: res)
  also have "\<dots> \<longleftrightarrow> (\<exists>obj. Some obj \<in> set (candidates (Defs (TypesInfo pkg))) \<and>
                          x \<in> set (recorded tc iface (Type obj)))"
  proof
    assume "\<exists>object \<in> set (candidates (Defs (TypesInfo pkg))). x \<in> set (recordedOf tc iface object)"
    then obtain object where o: "object \<in> set (candidates (Defs (TypesInfo pkg)))"
      and x: "x \<in> set (recordedOf tc iface object)" by blast
    from x obtain obj where "object = Some obj" by (cases object) auto
    with o x show "\<exists>obj. Some obj \<in> set (candidates (Defs (TypesInfo pkg))) \<and>
                          x \<in> set (recorded tc iface (Type obj))" by auto
  next
    assume "\<exists>obj. Some obj \<in> set (candidates (Defs (TypesInfo pkg))) \<and>
                          x \<in> set (recorded tc iface (Type obj))"
    then show "\<exists>object \<in> set (candidates (Defs (TypesInfo pkg))). x \<in> set (recordedOf tc iface object)"
      by force
  qed
  finally show ?thesis by (auto simp: set_candidates)
qed

lemma ex_impls_rings:
  "findInterfaceImplementations ex_tc ex_ShapeMethods ex_rings
     = Returns [ex_Circle, Pointer ex_Square, Pointer ex_Circle]"
  by (simp add: findInterfaceImplementations_def ex_rings_def ex_shapes_def typeIdent_def
      packageIdent_def funcIdent_def ex_tc_def ex_Implements_def ex_types_distinct)
     (simp add: ex_Circle_def ex_Square_def ex_Named_def)

lemma mset_candidates:
  "mset defs1 = mset defs2 \<Longrightarrow> mset (candidates defs1) = mset (candidates defs2)"
  by (simp add: candidates_def)

lemma mset_concat_map:
  "mset xs = mset ys \<Longrightarrow> mset (concat (map g xs)) = mset (concat (map g ys))"
proof -
  assume eq: "mset xs = mset ys"
  have "mset (concat (map g zs)) = sum_mset (image_mset (\<lambda>x. mset (g x)) (mset zs))" for zs
    by (induction zs) auto
  with eq show ?thesis by simp
qed

subsection \<open>A lookup that does not go through\<close>





subsection \<open>Two orders of the same definitions\<close>

lemma findInterfaceImplementations_permuted:
  assumes "mset (Defs (TypesInfo pkg1)) = mset (Defs (TypesInfo pkg2))"
  shows "(findInterfaceImplementations tc iface pkg1 = Panics NilPointerDereference \<and>
          findInterfaceImplementations tc iface pkg2 = Panics NilPointerDereference) \<or>
         (\<exists>results1 results2.
            findInterfaceImplementations tc iface pkg1 = Returns results1 \<and>
            findInterfaceImplementations tc iface pkg2 = Returns results2 \<and>
            set results1 = set results2 \<and> mset results1 = mset results2)"
proof -
  let ?c1 = "candidates (Defs (TypesInfo pkg1))" and ?c2 = "candidates (Defs (TypesInfo pkg2))"
  from assms have c: "mset ?c1 = mset ?c2" by (rule mset_candidates)
  then have s: "set ?c1 = set ?c2" by (rule mset_eq_setD)
  from c have m: "mset (concat (map (recordedOf tc iface) ?c1))
                  = mset (concat (map (recordedOf tc iface) ?c2))"
    by (rule mset_concat_map)
  then have "set (concat (map (recordedOf tc iface) ?c1)) = set (concat (map (recordedOf tc iface) ?c2))"
    by (rule mset_eq_setD)
  with s m show ?thesis
    by (simp add: findInterfaceImplementations_eq)
qed

lemma methodsLoop_same_Types:
  "Types pkg1 = Types pkg2 \<Longrightarrow>
     methodsLoop tc impl pkg1 idx ms rm = methodsLoop tc impl pkg2 idx ms rm"
proof (induction ms arbitrary: rm)
  case (Cons m ms)
  have "findMethodDeclAST tc impl pkg1 m idx = findMethodDeclAST tc impl pkg2 m idx"
    using Cons.prems by (simp add: findMethodDeclAST_def)
  with Cons show ?case
    by (cases "findMethodDeclAST tc impl pkg2 m idx") (simp_all add: upd_fold)
qed simp

lemma loadPkgTypeMethodASTs_same:
  assumes same: "sameUpToOrder pkg1 pkg2"
      and sets: "set impls1 = set impls2"
      and run: "loadPkgTypeMethodASTs tc impls1 pkg1 ms = Returns rt"
  shows "loadPkgTypeMethodASTs tc impls2 pkg2 ms = Returns rt"
proof -
  from same have types: "Types pkg1 = Types pkg2" and syn: "Syntax pkg1 = Syntax pkg2"
    by (simp_all add: sameUpToOrder_def)
  from run obtain idx where idx: "pkgMethodBodyDecls pkg1 = Returns idx"
    and loop: "typesLoop tc pkg1 ms idx impls1 Map.empty = Returns rt"
    by (auto simp: loadPkgTypeMethodASTs_def andThen_Returns)
  from idx syn have idx2: "pkgMethodBodyDecls pkg2 = Returns idx"
    by (simp add: pkgMethodBodyDecls_def)
  note t1 = typesLoop_Returns [OF loop]
  have ml: "methodsLoop tc impl pkg2 idx ms Map.empty = methodsLoop tc impl pkg1 idx ms Map.empty"
    for impl
    by (rule methodsLoop_same_Types [OF types, symmetric])
  have "\<forall>impl \<in> set impls2. \<exists>rm. methodsLoop tc impl pkg2 idx ms Map.empty = Returns rm"
    using t1 sets by (simp add: ml) blast
  from typesLoop_all_Returns [OF this] obtain rt2
    where loop2: "typesLoop tc pkg2 ms idx impls2 Map.empty = Returns rt2" by blast
  note t2 = typesLoop_Returns [OF loop2]
  have "rt2 t = rt t" for t
  proof (cases "t \<in> set impls1")
    case True
    with t1 obtain rm where "methodsLoop tc t pkg1 idx ms Map.empty = Returns rm" "rt t = Some rm"
      by blast
    moreover from True sets t2 obtain rm2
      where "methodsLoop tc t pkg2 idx ms Map.empty = Returns rm2" "rt2 t = Some rm2"
      by blast
    ultimately show ?thesis by (simp add: ml)
  next
    case False
    with t1 t2 sets show ?thesis by simp
  qed
  then have "rt2 = rt" by (rule ext)
  with loop2 idx2 show ?thesis
    by (simp add: loadPkgTypeMethodASTs_def)
qed

lemma package_same:
  assumes same: "sameUpToOrder pkg1 pkg2"
      and scan: "findInterfaceImplementations tc iface pkg1 = Returns impls1"
      and run: "loadPkgTypeMethodASTs tc impls1 pkg1 ms = Returns rt"
  shows "\<exists>impls2. findInterfaceImplementations tc iface pkg2 = Returns impls2 \<and>
           loadPkgTypeMethodASTs tc impls2 pkg2 ms = Returns rt"
proof -
  from same have "mset (Defs (TypesInfo pkg1)) = mset (Defs (TypesInfo pkg2))"
    by (simp add: sameUpToOrder_def)
  from findInterfaceImplementations_permuted [OF this, of tc iface] scan
  obtain impls2 where 2: "findInterfaceImplementations tc iface pkg2 = Returns impls2"
    and "set impls1 = set impls2" by auto
  with loadPkgTypeMethodASTs_same [OF same _ run] show ?thesis by blast
qed

lemma sameUpToOrder_sym: "sameUpToOrder pkg1 pkg2 \<Longrightarrow> sameUpToOrder pkg2 pkg1"
  by (simp add: sameUpToOrder_def)

lemma pkgsLoop_same:
  assumes same: "list_all2 sameUpToOrder pkgs1 pkgs2"
      and run: "pkgsLoop tc T ms pkgs1 r = Returns r1"
  shows "\<exists>r2. pkgsLoop tc T ms pkgs2 r' = Returns r2 \<and>
           (\<forall>pair \<in> set (zip pkgs1 pkgs2).
              \<exists>rt. r1 (fst pair) = Some rt \<and> r2 (snd pair) = Some rt)"
proof -
  note p1 = pkgsLoop_Returns [OF run]
  have pairs: "sameUpToOrder p q" if "(p, q) \<in> set (zip pkgs1 pkgs2)" for p q
    using same that by (auto simp: list_all2_iff)
  have step2: "\<exists>impls rt. findInterfaceImplementations tc (Underlying T) q = Returns impls \<and>
                 loadPkgTypeMethodASTs tc impls q ms = Returns rt" if "q \<in> set pkgs2" for q
  proof -
    from that same obtain p where "(p, q) \<in> set (zip pkgs1 pkgs2)"
      by (metis in_set_impl_in_set_zip2 list_all2_lengthD)
    then have "p \<in> set pkgs1" and s: "sameUpToOrder p q"
      by (auto dest: set_zip_leftD pairs)
    with p1 obtain impls rt where "findInterfaceImplementations tc (Underlying T) p = Returns impls"
      "loadPkgTypeMethodASTs tc impls p ms = Returns rt" by blast
    from package_same [OF s this] show ?thesis by blast
  qed
  have "\<exists>r2. pkgsLoop tc T ms pkgs2 r' = Returns r2"
  proof (cases pkgs1)
    case Nil
    with same show ?thesis by simp
  next
    case (Cons p ps)
    with run have "isInterface (Underlying T)" by (auto split: if_splits)
    from pkgsLoop_all_Returns [OF this] step2 show ?thesis by blast
  qed
  then obtain r2 where run2: "pkgsLoop tc T ms pkgs2 r' = Returns r2" by blast
  note p2 = pkgsLoop_Returns [OF run2]
  have "\<exists>rt. r1 p = Some rt \<and> r2 q = Some rt" if "(p, q) \<in> set (zip pkgs1 pkgs2)" for p q
  proof -
    from that have p: "p \<in> set pkgs1" and q: "q \<in> set pkgs2" and s: "sameUpToOrder p q"
      by (auto dest: set_zip_leftD set_zip_rightD pairs)
    from p1 p obtain impls rt where a: "findInterfaceImplementations tc (Underlying T) p = Returns impls"
      "loadPkgTypeMethodASTs tc impls p ms = Returns rt" and r1: "r1 p = Some rt" by blast
    from package_same [OF s a] obtain impls2
      where b: "findInterfaceImplementations tc (Underlying T) q = Returns impls2"
        "loadPkgTypeMethodASTs tc impls2 q ms = Returns rt" by blast
    from p2 q obtain impls2' rt2 where "findInterfaceImplementations tc (Underlying T) q = Returns impls2'"
      "loadPkgTypeMethodASTs tc impls2' q ms = Returns rt2" "r2 q = Some rt2" by blast
    with b r1 show ?thesis by simp
  qed
  with run2 show ?thesis by auto
qed

lemma Find_same_interface:
  assumes "LoadConfig query = Some config"
      and "snd (load1 (ensureModes config) (Packages query)) = Inr loadedPkgs1"
      and "snd (load2 (ensureModes config) (Packages query)) = Inr loadedPkgs2"
      and "list_all2 sameUpToOrder loadedPkgs1 loadedPkgs2"
      and "findInterface loadedPkgs1 (InterfacePackage query) (InterfaceName query) = Returns ifaceType"
      and "findInterface loadedPkgs2 (InterfacePackage query) (InterfaceName query) = Returns ifaceType"
  shows "((\<exists>result1. snd (Find tc load1 query) = Returns result1) \<longleftrightarrow>
          (\<exists>result2. snd (Find tc load2 query) = Returns result2)) \<and>
         (\<forall>result1 result2.
            snd (Find tc load1 query) = Returns result1 \<and>
            snd (Find tc load2 query) = Returns result2 \<longrightarrow>
            (\<forall>pair \<in> set (zip loadedPkgs1 loadedPkgs2).
               \<exists>resultTypes. result1 (fst pair) = Some resultTypes \<and>
                             result2 (snd pair) = Some resultTypes)) \<and>
         (\<forall>pair \<in> set (zip loadedPkgs1 loadedPkgs2).
            (findInterfaceImplementations tc (Underlying ifaceType) (fst pair)
               = Panics NilPointerDereference \<and>
             findInterfaceImplementations tc (Underlying ifaceType) (snd pair)
               = Panics NilPointerDereference) \<or>
            (\<exists>impls1 impls2.
               findInterfaceImplementations tc (Underlying ifaceType) (fst pair) = Returns impls1 \<and>
               findInterfaceImplementations tc (Underlying ifaceType) (snd pair) = Returns impls2 \<and>
               set impls1 = set impls2))"
proof -
  have f1: "snd (Find tc load1 query)
              = pkgsLoop tc ifaceType (Methods query) loadedPkgs1 Map.empty"
    by (simp add: Find_def assms(1,2,5))
  have f2: "snd (Find tc load2 query)
              = pkgsLoop tc ifaceType (Methods query) loadedPkgs2 Map.empty"
    by (simp add: Find_def assms(1,3,6))
  from assms(4) have rev: "list_all2 sameUpToOrder loadedPkgs2 loadedPkgs1"
    by (auto simp: list_all2_conv_all_nth intro: sameUpToOrder_sym)
  have 1: "(\<exists>result1. snd (Find tc load1 query) = Returns result1) \<longleftrightarrow>
          (\<exists>result2. snd (Find tc load2 query) = Returns result2)"
    unfolding f1 f2 using pkgsLoop_same [OF assms(4)] pkgsLoop_same [OF rev] by blast
  have 2: "\<forall>pair \<in> set (zip loadedPkgs1 loadedPkgs2).
               \<exists>resultTypes. result1 (fst pair) = Some resultTypes \<and>
                             result2 (snd pair) = Some resultTypes"
    if "snd (Find tc load1 query) = Returns result1" "snd (Find tc load2 query) = Returns result2"
    for result1 result2
    using pkgsLoop_same [OF assms(4), of tc ifaceType "Methods query" Map.empty result1 Map.empty]
      that unfolding f1 f2 by auto
  have 3: "(findInterfaceImplementations tc (Underlying ifaceType) p
               = Panics NilPointerDereference \<and>
             findInterfaceImplementations tc (Underlying ifaceType) q
               = Panics NilPointerDereference) \<or>
            (\<exists>impls1 impls2.
               findInterfaceImplementations tc (Underlying ifaceType) p = Returns impls1 \<and>
               findInterfaceImplementations tc (Underlying ifaceType) q = Returns impls2 \<and>
               set impls1 = set impls2)"
    if "(p, q) \<in> set (zip loadedPkgs1 loadedPkgs2)" for p q
  proof -
    from assms(4) that have "sameUpToOrder p q" by (auto simp: list_all2_iff)
    then have "mset (Defs (TypesInfo p)) = mset (Defs (TypesInfo q))"
      by (simp add: sameUpToOrder_def)
    from findInterfaceImplementations_permuted [OF this, of tc "Underlying ifaceType"]
    show ?thesis by blast
  qed
  from 1 2 3 show ?thesis by (intro conjI allI impI ballI) (blast, blast, fastforce)
qed

lemma findIdent_filter:
  "findIdent defs name =
     (case filter (\<lambda>entry. isTypeIdent (fst entry) \<and> map_option Name (fst entry) = Some name) defs of
        [] \<Rightarrow> None
      | entry # entries \<Rightarrow> Some (the (fst entry), snd entry))"
proof (induction defs)
  case (Cons entry defs)
  obtain ident object where "entry = (ident, object)" by (cases entry)
  with Cons show ?case by (cases ident) auto
qed simp

lemma mset_short_eq:
  assumes "mset xs = mset ys" and "length xs \<le> 1"
  shows "xs = ys"
proof -
  from assms(1) have len: "length xs = length ys" by (rule mset_eq_length)
  show ?thesis
  proof (cases xs)
    case Nil
    with len show ?thesis by simp
  next
    case (Cons x xs')
    with assms(2) have xs: "xs = [x]" by simp
    with len obtain y where ys: "ys = [y]" by (cases ys) auto
    with xs assms(1) show ?thesis by simp
  qed
qed

lemma findIdent_same:
  assumes "sameUpToOrder pkg1 pkg2" and "length (namedTypeIdents pkg1 name) \<le> 1"
  shows "findIdent (Defs (TypesInfo pkg1)) name = findIdent (Defs (TypesInfo pkg2)) name"
proof -
  from assms(1) have "mset (namedTypeIdents pkg1 name) = mset (namedTypeIdents pkg2 name)"
    by (simp add: sameUpToOrder_def namedTypeIdents_def)
  from mset_short_eq [OF this assms(2)] show ?thesis
    by (simp add: findIdent_filter namedTypeIdents_def)
qed

lemma findInterface_same:
  assumes "list_all2 sameUpToOrder pkgs1 pkgs2"
      and "\<forall>pkg \<in> set pkgs1. ID pkg = path \<longrightarrow> length (namedTypeIdents pkg name) \<le> 1"
  shows "findInterface pkgs1 path name = findInterface pkgs2 path name"
  using assms
proof (induction pkgs1 pkgs2 rule: list_all2_induct)
  case Nil
  show ?case by simp
next
  case (Cons pkg1 pkgs1 pkg2 pkgs2)
  from Cons.hyps(1) have id: "ID pkg1 = ID pkg2" by (simp add: sameUpToOrder_def)
  show ?case
  proof (cases "ID pkg1 = path")
    case True
    with Cons.prems have "length (namedTypeIdents pkg1 name) \<le> 1" by simp
    from findIdent_same [OF Cons.hyps(1) this] True id show ?thesis by simp
  next
    case False
    with Cons id show ?thesis by simp
  qed
qed

lemma ex_findInterface_first: "findInterface (ex_geo_first # pkgs) ''geo'' ''Shape'' = Returns ex_Shape"
  by (simp add: ex_geo_first_def ex_geo_def typeIdent_def packageIdent_def) (simp add: ex_Shape_def)

lemma ex_findInterface_second:
  "findInterface (ex_geo_second # pkgs) ''geo'' ''Shape'' = Returns ex_LocalShape"
  by (simp add: ex_geo_second_def ex_geo_def typeIdent_def) (simp add: ex_LocalShape_def)

lemma ex_findInterface_geo: "findInterface (ex_geo # pkgs) ''geo'' ''Shape'' = Returns ex_Shape"
  by (simp add: ex_geo_def typeIdent_def packageIdent_def) (simp add: ex_Shape_def)

lemma ex_impls_geo_first:
  "findInterfaceImplementations ex_tc ex_ShapeMethods ex_geo_first = Returns []"
  by (simp add: findInterfaceImplementations_def ex_geo_first_def ex_geo_def typeIdent_def
      packageIdent_def funcIdent_def ex_Shape_def ex_ShapeMethods_def ex_tc_def ex_Implements_def)
     (simp add: ex_Base_def ex_Circle_def ex_Square_def ex_LocalShape_def)

lemma ex_load_geo_first: "loadPkgTypeMethodASTs ex_tc [] ex_geo_first ms = Returns Map.empty"
  using ex_index_geo by (simp add: loadPkgTypeMethodASTs_def pkgMethodBodyDecls_def ex_geo_first_def)

lemma ex_impls_shapes_backwards:
  "findInterfaceImplementations ex_tc ex_ShapeMethods ex_shapes_backwards
     = Returns [Pointer ex_Square, ex_Circle]"
  by (simp add: findInterfaceImplementations_def ex_shapes_backwards_def ex_shapes_def typeIdent_def
      packageIdent_def funcIdent_def ex_tc_def ex_Implements_def ex_types_distinct)
     (simp add: ex_Circle_def ex_Square_def ex_Named_def)

section \<open>The claims\<close>

subsection \<open>C1: which types are recorded, and in which form\<close>

text \<open>
  Claim C1 says, for every named type definition \<open>T\<close> of a loaded package, that \<open>T\<close>
  appears in the package's entry exactly when its underlying type is not an interface
  and \<open>T\<close> or \<open>*T\<close> implements the interface, in value form when \<open>T\<close> implements it
  and in pointer form otherwise, and in at most one form. Every type identifier of
  \<open>Defs\<close> is a candidate of its own, an alias included. In package \<open>rings\<close> the
  definition of \<open>Circle\<close> records \<open>Circle\<close>, which implements \<open>Shape\<close>, and the alias
  \<open>Ring = *Circle\<close> records \<open>*Circle\<close>, which implements it too: the entry of \<open>rings\<close>
  holds \<open>Circle\<close> in both forms.
\<close>

theorem Find_alias_records_both_forms_counterexample:
  "(typeIdent ''Circle'', Some (TypeName ex_Circle)) \<in> set (Defs (TypesInfo ex_rings)) \<and>
   isTypeIdent (typeIdent ''Circle'') \<and>
   snd (Find ex_tc ex_load (ex_query\<lparr>Packages := [''geo'', ''rings'']\<rparr>)) =
     Returns [ex_geo \<mapsto> Map.empty,
              ex_rings \<mapsto> [ex_Circle \<mapsto> [''Area'' \<mapsto> ex_CircleArea],
                           Pointer ex_Square \<mapsto> [''Area'' \<mapsto> ex_SquareArea],
                           Pointer ex_Circle \<mapsto> [''Area'' \<mapsto> ex_CircleArea]]] \<and>
   ex_Circle \<in> dom [ex_Circle \<mapsto> [''Area'' \<mapsto> ex_CircleArea],
                      Pointer ex_Square \<mapsto> [''Area'' \<mapsto> ex_SquareArea],
                      Pointer ex_Circle \<mapsto> [''Area'' \<mapsto> ex_CircleArea]] \<and>
   Pointer ex_Circle \<in> dom [ex_Circle \<mapsto> [''Area'' \<mapsto> ex_CircleArea],
                              Pointer ex_Square \<mapsto> [''Area'' \<mapsto> ex_SquareArea],
                              Pointer ex_Circle \<mapsto> [''Area'' \<mapsto> ex_CircleArea]]"
proof -
  have idx: "pkgMethodBodyDecls ex_rings = Returns [120 \<mapsto> ex_CircleArea, 220 \<mapsto> ex_SquareArea]"
    using ex_index_shapes by (simp add: pkgMethodBodyDecls_def ex_rings_def)
  have types: "Types ex_rings = Types ex_shapes"
    by (simp add: ex_rings_def)
  have lk: "findMethodDeclAST ex_tc t ex_rings m idx = findMethodDeclAST ex_tc t ex_shapes m idx"
    for t m idx
    by (simp add: findMethodDeclAST_def types)
  have lk3: "findMethodDeclAST ex_tc (Pointer ex_Circle) ex_shapes ''Area''
     [120 \<mapsto> ex_CircleArea, 220 \<mapsto> ex_SquareArea] = Returns ex_CircleArea"
    by (simp add: findMethodDeclAST_def ex_tc_def ex_Lookup_def ex_CircleAreaObj_def)
  have rt: "loadPkgTypeMethodASTs ex_tc [ex_Circle, Pointer ex_Square, Pointer ex_Circle] ex_rings
              [''Area''] =
            Returns [ex_Circle \<mapsto> [''Area'' \<mapsto> ex_CircleArea],
                     Pointer ex_Square \<mapsto> [''Area'' \<mapsto> ex_SquareArea],
                     Pointer ex_Circle \<mapsto> [''Area'' \<mapsto> ex_CircleArea]]"
    by (simp add: loadPkgTypeMethodASTs_def idx lk ex_lookups lk3)
  have fi: "findInterface [ex_geo, ex_rings] ''geo'' ''Shape'' = Returns ex_Shape"
    by (simp add: ex_geo_def typeIdent_def packageIdent_def) (simp add: ex_Shape_def)
  have "pkgsLoop ex_tc ex_Shape [''Area''] [ex_geo, ex_rings] Map.empty =
     Returns [ex_geo \<mapsto> Map.empty,
              ex_rings \<mapsto> [ex_Circle \<mapsto> [''Area'' \<mapsto> ex_CircleArea],
                           Pointer ex_Square \<mapsto> [''Area'' \<mapsto> ex_SquareArea],
                           Pointer ex_Circle \<mapsto> [''Area'' \<mapsto> ex_CircleArea]]]"
    by (simp add: ex_Underlying ex_impls_geo ex_impls_rings ex_load_geo rt)
  then have "snd (Find ex_tc ex_load (ex_query\<lparr>Packages := [''geo'', ''rings'']\<rparr>)) =
     Returns [ex_geo \<mapsto> Map.empty,
              ex_rings \<mapsto> [ex_Circle \<mapsto> [''Area'' \<mapsto> ex_CircleArea],
                           Pointer ex_Square \<mapsto> [''Area'' \<mapsto> ex_SquareArea],
                           Pointer ex_Circle \<mapsto> [''Area'' \<mapsto> ex_CircleArea]]]"
    by (simp add: Find_def ex_query_def ex_load_def fi del: findInterface.simps pkgsLoop.simps)
  moreover have "(typeIdent ''Circle'', Some (TypeName ex_Circle)) \<in> set (Defs (TypesInfo ex_rings))"
    by (simp add: ex_rings_def ex_shapes_def)
  moreover have "isTypeIdent (typeIdent ''Circle'')"
    by (simp add: typeIdent_def)
  ultimately show ?thesis by simp
qed

text \<open>
  Claim C1, amended. Let \<open>Find\<close> return a result, and let \<open>T\<close> be a named type that
  a type identifier of a loaded package denotes, in a package where no type identifier
  denotes the pointer type \<open>*T\<close>. Then the package's entry of the result holds \<open>T\<close> or
  \<open>*T\<close> exactly when the underlying type of \<open>T\<close> is not an interface and \<open>T\<close> or
  \<open>*T\<close> implements the located interface; it holds \<open>T\<close> exactly when moreover \<open>T\<close>
  itself implements it, also when \<open>*T\<close> does too; it holds \<open>*T\<close> exactly when \<open>T\<close>
  does not implement it and \<open>*T\<close> does; and it never holds both.
\<close>

theorem Find_records_implementations:
  assumes "snd (Find tc load query) = Returns result"
      and "LoadConfig query = Some config"
      and "snd (load (ensureModes config) (Packages query)) = Inr loadedPkgs"
      and "findInterface loadedPkgs (InterfacePackage query) (InterfaceName query) = Returns ifaceType"
      and "pkg \<in> set loadedPkgs"
      and "(ident, Some obj) \<in> set (Defs (TypesInfo pkg))"
      and "isTypeIdent ident"
      and "Type obj = Named n u"
      and "\<forall>entry \<in> set (Defs (TypesInfo pkg)).
             isTypeIdent (fst entry) \<longrightarrow> map_option Type (snd entry) \<noteq> Some (Pointer (Named n u))"
  shows "\<exists>resultTypes. result pkg = Some resultTypes \<and>
           ((Named n u \<in> dom resultTypes \<or> Pointer (Named n u) \<in> dom resultTypes) \<longleftrightarrow>
              \<not> isInterface u \<and>
              (Implements tc (Named n u) (Underlying ifaceType) \<or>
               Implements tc (Pointer (Named n u)) (Underlying ifaceType))) \<and>
           (Named n u \<in> dom resultTypes \<longleftrightarrow>
              \<not> isInterface u \<and> Implements tc (Named n u) (Underlying ifaceType)) \<and>
           (Pointer (Named n u) \<in> dom resultTypes \<longleftrightarrow>
              \<not> isInterface u \<and> \<not> Implements tc (Named n u) (Underlying ifaceType) \<and>
              Implements tc (Pointer (Named n u)) (Underlying ifaceType)) \<and>
           \<not> (Named n u \<in> dom resultTypes \<and> Pointer (Named n u) \<in> dom resultTypes)"
proof -
  let ?T = "Named n u" and ?I = "Underlying ifaceType"
  from Find_Returns_entries [where load = load, OF assms(1-3)] assms(4,5) obtain impls rt
    where impls: "findInterfaceImplementations tc ?I pkg = Returns impls"
      and rt: "loadPkgTypeMethodASTs tc impls pkg (Methods query) = Returns rt"
      and res: "result pkg = Some rt"
    by fastforce
  from loadPkgTypeMethodASTs_Returns [OF rt] have dom: "dom rt = set impls" by blast
  note mem = findInterfaceImplementations_set [OF impls]
  have val: "?T \<in> set impls \<longleftrightarrow> \<not> isInterface u \<and> Implements tc ?T ?I"
  proof
    assume "?T \<in> set impls"
    then obtain i ob where "(i, Some ob) \<in> set (Defs (TypesInfo pkg))" "isTypeIdent i"
      "?T \<in> set (recorded tc ?I (Type ob))"
      unfolding mem by blast
    then show "\<not> isInterface u \<and> Implements tc ?T ?I"
      by (auto simp: set_recorded)
  next
    assume "\<not> isInterface u \<and> Implements tc ?T ?I"
    then have "?T \<in> set (recorded tc ?I (Type obj))"
      by (simp add: set_recorded assms(8))
    with assms(6,7) show "?T \<in> set impls"
      unfolding mem by blast
  qed
  have ptr: "Pointer ?T \<in> set impls \<longleftrightarrow>
               \<not> isInterface u \<and> \<not> Implements tc ?T ?I \<and> Implements tc (Pointer ?T) ?I"
  proof
    assume "Pointer ?T \<in> set impls"
    then obtain i ob where e: "(i, Some ob) \<in> set (Defs (TypesInfo pkg))" and i: "isTypeIdent i"
      and r: "Pointer ?T \<in> set (recorded tc ?I (Type ob))"
      unfolding mem by blast
    from assms(9) e i have "Type ob \<noteq> Pointer ?T" by force
    with r show "\<not> isInterface u \<and> \<not> Implements tc ?T ?I \<and> Implements tc (Pointer ?T) ?I"
      by (auto simp: set_recorded)
  next
    assume "\<not> isInterface u \<and> \<not> Implements tc ?T ?I \<and> Implements tc (Pointer ?T) ?I"
    then have "Pointer ?T \<in> set (recorded tc ?I (Type obj))"
      by (simp add: set_recorded assms(8))
    with assms(6,7) show "Pointer ?T \<in> set impls"
      unfolding mem by blast
  qed
  from res dom val ptr show ?thesis by auto
qed

text \<open>\<open>Square\<close> in package \<open>shapes\<close>: only \<open>*Square\<close> implements \<open>Shape\<close>.\<close>

theorem Find_records_implementations_witness:
  "(typeIdent ''Square'', Some (TypeName ex_Square)) \<in> set (Defs (TypesInfo ex_shapes)) \<and>
   isTypeIdent (typeIdent ''Square'') \<and>
   \<not> Implements ex_tc ex_Square ex_ShapeMethods \<and>
   Implements ex_tc (Pointer ex_Square) ex_ShapeMethods \<and>
   (\<exists>resultTypes. snd (Find ex_tc ex_load ex_query) = Returns [ex_geo \<mapsto> Map.empty, ex_shapes \<mapsto> resultTypes] \<and>
      Pointer ex_Square \<in> dom resultTypes \<and> ex_Square \<notin> dom resultTypes)"
proof -
  let ?n = "''shapes.Square''" and ?u = "Unnamed ''struct{side float64}''"
  have c: "LoadConfig ex_query = Some ex_config"
    by (simp add: ex_query_def)
  have l: "snd (ex_load (ensureModes ex_config) (Packages ex_query)) = Inr [ex_geo, ex_shapes]"
    by (simp add: ex_query_def ex_load_def)
  have i: "findInterface [ex_geo, ex_shapes] (InterfacePackage ex_query) (InterfaceName ex_query)
             = Returns ex_Shape"
    by (simp add: ex_query_def ex_findInterface del: findInterface.simps)
  have p: "ex_shapes \<in> set [ex_geo, ex_shapes]" by simp
  have e: "(typeIdent ''Square'', Some (TypeName ex_Square)) \<in> set (Defs (TypesInfo ex_shapes))"
    by (simp add: ex_shapes_def)
  have t: "isTypeIdent (typeIdent ''Square'')"
    by (simp add: typeIdent_def)
  have n: "Type (TypeName ex_Square) = Named ?n ?u"
    by (simp add: ex_Square_def)
  have a: "\<forall>entry \<in> set (Defs (TypesInfo ex_shapes)).
             isTypeIdent (fst entry) \<longrightarrow> map_option Type (snd entry) \<noteq> Some (Pointer (Named ?n ?u))"
    by (simp add: ex_shapes_def ex_Circle_def ex_Square_def ex_Named_def funcIdent_def)
  have impl: "\<not> Implements ex_tc ex_Square ex_ShapeMethods"
    "Implements ex_tc (Pointer ex_Square) ex_ShapeMethods"
    by (simp_all add: ex_tc_def ex_Implements_def ex_types_distinct)
  from Find_records_implementations [where load = ex_load, OF ex_Find c l i p e t n a]
  have "Pointer ex_Square \<in> dom [ex_Circle \<mapsto> [''Area'' \<mapsto> ex_CircleArea],
                                   Pointer ex_Square \<mapsto> [''Area'' \<mapsto> ex_SquareArea]] \<and>
        ex_Square \<notin> dom [ex_Circle \<mapsto> [''Area'' \<mapsto> ex_CircleArea],
                            Pointer ex_Square \<mapsto> [''Area'' \<mapsto> ex_SquareArea]]"
    using impl by (simp add: ex_Underlying ex_geo_shapes ex_Square_def [symmetric])
  with e t impl ex_Find show ?thesis by blast
qed

subsection \<open>C2: an entry for every loaded package\<close>

text \<open>
  Claim C2. When \<open>Find\<close> returns a result, its keys are exactly the packages that
  \<open>packages.Load\<close> returned: every loaded package has an entry. The interface's own
  package is among them, and a package for which \<open>findInterfaceImplementations\<close> finds
  no type has the empty map as its entry, not a missing one.
\<close>

theorem Find_entry_for_every_package:
  assumes "snd (Find tc load query) = Returns result"
      and "LoadConfig query = Some config"
      and "snd (load (ensureModes config) (Packages query)) = Inr loadedPkgs"
  shows "\<exists>ifaceType.
           findInterface loadedPkgs (InterfacePackage query) (InterfaceName query) = Returns ifaceType \<and>
           dom result = set loadedPkgs \<and>
           (\<exists>pkg \<in> set loadedPkgs. ID pkg = InterfacePackage query \<and> result pkg \<noteq> None) \<and>
           (\<forall>pkg \<in> set loadedPkgs.
              findInterfaceImplementations tc (Underlying ifaceType) pkg = Returns [] \<longrightarrow>
              result pkg = Some Map.empty)"
proof -
  from Find_Returns_entries [where load = load, OF assms] obtain ifaceType
    where iface: "findInterface loadedPkgs (InterfacePackage query) (InterfaceName query) = Returns ifaceType"
      and dom: "dom result = set loadedPkgs"
      and entries: "\<forall>pkg \<in> set loadedPkgs. \<exists>impls rt.
              findInterfaceImplementations tc (Underlying ifaceType) pkg = Returns impls \<and>
              loadPkgTypeMethodASTs tc impls pkg (Methods query) = Returns rt \<and>
              result pkg = Some rt"
    by blast
  have own: "\<exists>pkg \<in> set pkgs. ID pkg = path"
    if "findInterface pkgs path name = Returns T" for pkgs path name T
    using that by (induction pkgs) (auto split: if_splits)
  from own [OF iface] dom
  have 1: "\<exists>pkg \<in> set loadedPkgs. ID pkg = InterfacePackage query \<and> result pkg \<noteq> None"
    by blast
  have 2: "result pkg = Some Map.empty"
    if "pkg \<in> set loadedPkgs"
      and "findInterfaceImplementations tc (Underlying ifaceType) pkg = Returns []" for pkg
  proof -
    from entries that obtain rt
      where "loadPkgTypeMethodASTs tc [] pkg (Methods query) = Returns rt" "result pkg = Some rt"
      by fastforce
    then show ?thesis
      by (auto simp: loadPkgTypeMethodASTs_def andThen_Returns)
  qed
  from iface dom 1 2 show ?thesis by blast
qed

text \<open>The small program: \<open>geo\<close>, which declares the interface, has the empty entry.\<close>

theorem Find_entry_for_every_package_witness:
  "snd (Find ex_tc ex_load ex_query) =
     Returns [ex_geo \<mapsto> Map.empty,
              ex_shapes \<mapsto> [ex_Circle \<mapsto> [''Area'' \<mapsto> ex_CircleArea],
                            Pointer ex_Square \<mapsto> [''Area'' \<mapsto> ex_SquareArea]]] \<and>
   dom [ex_geo \<mapsto> Map.empty,
        ex_shapes \<mapsto> [ex_Circle \<mapsto> [''Area'' \<mapsto> ex_CircleArea],
                      Pointer ex_Square \<mapsto> [''Area'' \<mapsto> ex_SquareArea]]] = set [ex_geo, ex_shapes] \<and>
   findInterfaceImplementations ex_tc (Underlying ex_Shape) ex_geo = Returns []"
proof -
  have c: "LoadConfig ex_query = Some ex_config"
    by (simp add: ex_query_def)
  have l: "snd (ex_load (ensureModes ex_config) (Packages ex_query)) = Inr [ex_geo, ex_shapes]"
    by (simp add: ex_query_def ex_load_def)
  from Find_entry_for_every_package [where load = ex_load, OF ex_Find c l]
  show ?thesis by (auto simp: ex_Find ex_Underlying ex_impls_geo)
qed

subsection \<open>C3: a requested method that does not resolve\<close>



subsection \<open>C4: from the method object to its declaration\<close>



subsection \<open>C5: an interface that cannot be located\<close>

text \<open>
  Claim C5. With the packages loaded, \<open>findInterface\<close> fails with an error when no
  loaded package has the interface's package as its \<open>ID\<close>, and when the first package
  with that \<open>ID\<close> has no type identifier of the interface's name among its \<open>Defs\<close>; in
  both cases \<open>Find\<close> fails with the same error and returns no result.
\<close>

theorem findInterface_not_found:
  assumes "LoadConfig query = Some config"
      and "snd (load (ensureModes config) (Packages query)) = Inr loadedPkgs"
  shows "((\<forall>pkg \<in> set loadedPkgs. ID pkg \<noteq> InterfacePackage query) \<longrightarrow>
            findInterface loadedPkgs (InterfacePackage query) (InterfaceName query)
              = Fails (InterfacePackageNotFound (InterfacePackage query)) \<and>
            snd (Find tc load query) = Fails (InterfacePackageNotFound (InterfacePackage query))) \<and>
         (\<forall>pkg. find (\<lambda>pkg. ID pkg = InterfacePackage query) loadedPkgs = Some pkg \<and>
            (\<forall>entry \<in> set (Defs (TypesInfo pkg)).
               \<not> (isTypeIdent (fst entry) \<and> map_option Name (fst entry) = Some (InterfaceName query))) \<longrightarrow>
            findInterface loadedPkgs (InterfacePackage query) (InterfaceName query)
              = Fails (InterfaceTypeNotFound (InterfaceName query) (InterfacePackage query)) \<and>
            snd (Find tc load query)
              = Fails (InterfaceTypeNotFound (InterfaceName query) (InterfacePackage query)))"
proof (intro conjI allI impI)
  assume "\<forall>pkg \<in> set loadedPkgs. ID pkg \<noteq> InterfacePackage query"
  then show 1: "findInterface loadedPkgs (InterfacePackage query) (InterfaceName query)
              = Fails (InterfacePackageNotFound (InterfacePackage query))"
    by (rule findInterface_no_package)
  show "snd (Find tc load query) = Fails (InterfacePackageNotFound (InterfacePackage query))"
    by (rule Find_findInterface_Fails [where load = load, OF assms 1])
next
  fix pkg
  assume a: "find (\<lambda>pkg. ID pkg = InterfacePackage query) loadedPkgs = Some pkg \<and>
            (\<forall>entry \<in> set (Defs (TypesInfo pkg)).
               \<not> (isTypeIdent (fst entry) \<and> map_option Name (fst entry) = Some (InterfaceName query)))"
  then have "findIdent (Defs (TypesInfo pkg)) (InterfaceName query) = None"
    unfolding findIdent_None by blast
  with a show 2: "findInterface loadedPkgs (InterfacePackage query) (InterfaceName query)
              = Fails (InterfaceTypeNotFound (InterfaceName query) (InterfacePackage query))"
    by (simp add: findInterface_no_type)
  show "snd (Find tc load query)
              = Fails (InterfaceTypeNotFound (InterfaceName query) (InterfacePackage query))"
    by (rule Find_findInterface_Fails [where load = load, OF assms 2])
qed

text \<open>The small program asked for package \<open>shape\<close>, and for \<open>Circle\<close> in \<open>geo\<close>.\<close>

theorem findInterface_not_found_witness:
  "snd (Find ex_tc ex_load (ex_query\<lparr>InterfacePackage := ''shape''\<rparr>))
     = Fails (InterfacePackageNotFound ''shape'') \<and>
   snd (Find ex_tc ex_load (ex_query\<lparr>InterfaceName := ''Circle''\<rparr>))
     = Fails (InterfaceTypeNotFound ''Circle'' ''geo'') \<and>
   find (\<lambda>pkg. ID pkg = ''geo'') [ex_geo, ex_shapes] = Some ex_geo"
proof -
  let ?q1 = "ex_query\<lparr>InterfacePackage := ''shape''\<rparr>"
  let ?q2 = "ex_query\<lparr>InterfaceName := ''Circle''\<rparr>"
  have c1: "LoadConfig ?q1 = Some ex_config" and c2: "LoadConfig ?q2 = Some ex_config"
    by (simp_all add: ex_query_def)
  have l1: "snd (ex_load (ensureModes ex_config) (Packages ?q1)) = Inr [ex_geo, ex_shapes]"
    and l2: "snd (ex_load (ensureModes ex_config) (Packages ?q2)) = Inr [ex_geo, ex_shapes]"
    by (simp_all add: ex_query_def ex_load_def)
  have ids: "ID ex_geo = ''geo''" "ID ex_shapes = ''shapes''"
    by (simp_all add: ex_geo_def ex_shapes_def)
  have n1: "\<forall>pkg \<in> set [ex_geo, ex_shapes]. ID pkg \<noteq> InterfacePackage ?q1"
    by (simp add: ids ex_query_def)
  have f2: "find (\<lambda>pkg. ID pkg = InterfacePackage ?q2) [ex_geo, ex_shapes] = Some ex_geo"
    by (simp add: ids ex_query_def)
  have n2: "\<forall>entry \<in> set (Defs (TypesInfo ex_geo)).
               \<not> (isTypeIdent (fst entry) \<and> map_option Name (fst entry) = Some (InterfaceName ?q2))"
    by (simp add: ex_geo_def ex_query_def typeIdent_def funcIdent_def packageIdent_def)
  from findInterface_not_found [where load = ex_load and tc = ex_tc, OF c1 l1] n1
  have r1: "snd (Find ex_tc ex_load ?q1) = Fails (InterfacePackageNotFound (InterfacePackage ?q1))"
    by blast
  from findInterface_not_found [where load = ex_load and tc = ex_tc, OF c2 l2] f2 n2
  have r2: "snd (Find ex_tc ex_load ?q2)
              = Fails (InterfaceTypeNotFound (InterfaceName ?q2) (InterfacePackage ?q2))"
    by blast
  from r1 r2 f2 show ?thesis by (simp add: ex_query_def)
qed

subsection \<open>C6: errors of the load step\<close>

text \<open>
  Claim C6. Let the loader be the Program Loader of the spec. If some requested package
  cannot be found, fails to parse or fails to type-check, then the load step fails:
  \<open>Find\<close> returns no result and the error \<open>failed to load project packages: \<close> followed
  by the loader's error, and that text names such a package.
\<close>

theorem Find_load_error:
  assumes "LoadConfig query = Some config"
      and "\<exists>packageIdentifier \<in> set (Packages query).
             \<forall>pkg. workspace (ensureModes config) packageIdentifier \<noteq> Checked pkg"
  shows "\<exists>packageIdentifier \<in> set (Packages query). \<exists>pre post.
           (\<forall>pkg. workspace (ensureModes config) packageIdentifier \<noteq> Checked pkg) \<and>
           snd (Load workspace (ensureModes config) (Packages query)) = Inl (pre @ packageIdentifier @ post) \<and>
           snd (Find tc (Load workspace) query) = Fails (LoadFailed (pre @ packageIdentifier @ post)) \<and>
           Error quote (LoadFailed (pre @ packageIdentifier @ post))
             = ''failed to load project packages: '' @ pre @ packageIdentifier @ post"
proof -
  from loadAll_names_offender [OF assms(2)] obtain id pre post
    where id: "id \<in> set (Packages query)" "\<forall>pkg. workspace (ensureModes config) id \<noteq> Checked pkg"
      and err: "snd (Load workspace (ensureModes config) (Packages query)) = Inl (pre @ id @ post)"
    by (auto simp: Load_def)
  from err have "snd (Find tc (Load workspace) query) = Fails (LoadFailed (pre @ id @ post))"
    by (simp add: Find_LoadFailed_iff [OF assms(1)])
  with id err show ?thesis by auto
qed

text \<open>The packages \<open>geo\<close> and \<open>broken\<close> requested of the example workspace.\<close>

theorem Find_load_error_witness:
  "''broken'' \<in> set (Packages (ex_query\<lparr>Packages := [''geo'', ''broken'']\<rparr>)) \<and>
   ex_workspace (ensureModes ex_config) ''broken'' = FailsToParse \<and>
   snd (Find ex_tc (Load ex_workspace) (ex_query\<lparr>Packages := [''geo'', ''broken'']\<rparr>))
     = Fails (LoadFailed ''package broken fails to parse'') \<and>
   Error id (LoadFailed ''package broken fails to parse'')
     = ''failed to load project packages: package broken fails to parse''"
proof -
  let ?q = "ex_query\<lparr>Packages := [''geo'', ''broken'']\<rparr>"
  have c: "LoadConfig ?q = Some ex_config"
    by (simp add: ex_query_def)
  have b: "\<exists>packageIdentifier \<in> set (Packages ?q).
             \<forall>pkg. ex_workspace (ensureModes ex_config) packageIdentifier \<noteq> Checked pkg"
    by (simp add: ex_workspace_def)
  have l: "snd (Load ex_workspace (ensureModes ex_config) (Packages ?q)) = Inl ''package broken fails to parse''"
    by (simp add: Load_def ex_workspace_def)
  from Find_load_error [where workspace = ex_workspace and tc = ex_tc and quote = id, OF c b] l
  show ?thesis by (auto simp: ex_workspace_def)
qed

subsection \<open>C7: what Find changes\<close>

text \<open>
  Claim C7 says that \<open>Find\<close> leaves the caller's \<open>LoadConfig\<close>, its \<open>Mode\<close> and
  \<open>Fset\<close> included, unmodified. It does not: for the query of the small program, whose
  configuration has \<open>Mode = 0\<close> and \<open>Fset = nil\<close>, the configuration after the call
  has \<open>Mode = 475\<close> (the seven required flags) and a file set, the new one that \<open>Find\<close>
  made with the files that the loader parsed into it.
\<close>

theorem Find_changes_LoadConfig_counterexample:
  "LoadConfig ex_query = Some ex_config \<and> Mode ex_config = 0 \<and> Fset ex_config = None \<and>
   LoadConfig (fst (Find ex_tc ex_load ex_query))
     = Some (ex_config\<lparr>Mode := 475, Fset := Some (ex_parsed NewFileSet)\<rparr>) \<and>
   LoadConfig (fst (Find ex_tc ex_load ex_query)) \<noteq> LoadConfig ex_query"
  by (simp add: Find_def ex_query_def ex_load_def ensureModes_def ex_config_def requiredModes_def
      NeedDeps_def NeedImports_def NeedFiles_def NeedName_def NeedSyntax_def NeedTypes_def
      NeedTypesInfo_def)

text \<open>
  Claim C7, amended. \<open>Find\<close> changes the caller's state only through
  \<open>query.LoadConfig\<close>. The fields of the query itself are after the call what they were
  before: \<open>Packages\<close>, \<open>InterfacePackage\<close>, \<open>InterfaceName\<close>, \<open>Methods\<close>, and
  \<open>LoadConfig\<close> is \<open>nil\<close> exactly when it was. In the configuration that a non-nil
  \<open>LoadConfig\<close> points to, \<open>Find\<close> adds the required flags to \<open>Mode\<close> (bits already set
  stay set) and replaces a \<open>nil\<close> \<open>Fset\<close> by a new file set; it then hands the
  configuration to \<open>packages.Load\<close>, and what the caller finds after the call is what
  the loader left of it. With a loader that writes to nothing but the file set, the
  configuration after the call differs from the one before in \<open>Mode\<close> and \<open>Fset\<close> only.
  When \<open>Find\<close> returns a result, the packages it is keyed by are the packages as the
  loader returned them.
\<close>

theorem Find_frame:
  "Packages (fst (Find tc load query)) = Packages query \<and>
   InterfacePackage (fst (Find tc load query)) = InterfacePackage query \<and>
   InterfaceName (fst (Find tc load query)) = InterfaceName query \<and>
   Methods (fst (Find tc load query)) = Methods query \<and>
   (LoadConfig (fst (Find tc load query)) = None \<longleftrightarrow> LoadConfig query = None) \<and>
   (\<forall>config. LoadConfig query = Some config \<longrightarrow>
      LoadConfig (fst (Find tc load query)) =
        Some (fst (load
          (config\<lparr>Mode := Mode config OR requiredModes,
                  Fset := Some (case Fset config of None \<Rightarrow> NewFileSet | Some fset \<Rightarrow> fset)\<rparr>)
          (Packages query))) \<and>
      (\<forall>fset. fst (load (ensureModes config) (Packages query))
                 = (ensureModes config)\<lparr>Fset := Some fset\<rparr> \<longrightarrow>
         LoadConfig (fst (Find tc load query)) =
           Some (config\<lparr>Mode := Mode config OR requiredModes, Fset := Some fset\<rparr>)) \<and>
      (\<forall>loadedPkgs result.
         snd (load (ensureModes config) (Packages query)) = Inr loadedPkgs \<and>
         snd (Find tc load query) = Returns result \<longrightarrow> dom result = set loadedPkgs))"
proof -
  have modes: "ensureModes config =
      config\<lparr>Mode := Mode config OR requiredModes,
             Fset := Some (case Fset config of None \<Rightarrow> NewFileSet | Some fset \<Rightarrow> fset)\<rparr>" for config
    by (cases "Fset config") (simp_all add: ensureModes_def Let_def)
  have fields: "Packages (fst (Find tc load query)) = Packages query \<and>
   InterfacePackage (fst (Find tc load query)) = InterfacePackage query \<and>
   InterfaceName (fst (Find tc load query)) = InterfaceName query \<and>
   Methods (fst (Find tc load query)) = Methods query \<and>
   (LoadConfig (fst (Find tc load query)) = None \<longleftrightarrow> LoadConfig query = None)"
    by (cases "LoadConfig query") (simp_all add: Find_def)
  have config: "LoadConfig (fst (Find tc load query))
                  = Some (fst (load (ensureModes config) (Packages query)))"
    if "LoadConfig query = Some config" for config
    using that by (simp add: Find_def)
  have only_fset: "LoadConfig (fst (Find tc load query)) =
           Some (config\<lparr>Mode := Mode config OR requiredModes, Fset := Some fset\<rparr>)"
    if "LoadConfig query = Some config"
      and "fst (load (ensureModes config) (Packages query)) = (ensureModes config)\<lparr>Fset := Some fset\<rparr>"
    for config fset
    using that by (simp add: config) (simp add: modes)
  have keys: "dom result = set loadedPkgs"
    if "LoadConfig query = Some config"
      and "snd (load (ensureModes config) (Packages query)) = Inr loadedPkgs"
      and "snd (Find tc load query) = Returns result" for config loadedPkgs result
    using Find_Returns_entries [where load = load, OF that(3,1,2)] by blast
  show ?thesis
  proof (intro conjI allI impI)
    fix config assume c: "LoadConfig query = Some config"
    show "LoadConfig (fst (Find tc load query)) =
        Some (fst (load
          (config\<lparr>Mode := Mode config OR requiredModes,
                  Fset := Some (case Fset config of None \<Rightarrow> NewFileSet | Some fset \<Rightarrow> fset)\<rparr>)
          (Packages query)))"
      using config [OF c] by (simp add: modes [symmetric])
  qed (use fields only_fset keys in blast)+
qed

text \<open>
  The query of the small program: its loader writes to the file set only, and the result
  is keyed by the two packages it returned.
\<close>

theorem Find_frame_witness:
  "LoadConfig ex_query = Some ex_config \<and>
   fst (ex_load (ensureModes ex_config) (Packages ex_query))
     = (ensureModes ex_config)\<lparr>Fset := Some (ex_parsed NewFileSet)\<rparr> \<and>
   LoadConfig (fst (Find ex_tc ex_load ex_query))
     = Some (ex_config\<lparr>Mode := Mode ex_config OR requiredModes, Fset := Some (ex_parsed NewFileSet)\<rparr>) \<and>
   Packages (fst (Find ex_tc ex_load ex_query)) = [''geo'', ''shapes''] \<and>
   dom [ex_geo \<mapsto> Map.empty,
        ex_shapes \<mapsto> [ex_Circle \<mapsto> [''Area'' \<mapsto> ex_CircleArea],
                      Pointer ex_Square \<mapsto> [''Area'' \<mapsto> ex_SquareArea]]] = set [ex_geo, ex_shapes]"
proof -
  have c: "LoadConfig ex_query = Some ex_config"
    by (simp add: ex_query_def)
  have f: "fst (ex_load (ensureModes ex_config) (Packages ex_query))
             = (ensureModes ex_config)\<lparr>Fset := Some (ex_parsed NewFileSet)\<rparr>"
    by (simp add: ex_query_def ex_load_def ensureModes_def ex_config_def)
  have l: "snd (ex_load (ensureModes ex_config) (Packages ex_query)) = Inr [ex_geo, ex_shapes]"
    by (simp add: ex_query_def ex_load_def)
  note frame = Find_frame [of ex_tc ex_load ex_query]
  from frame have "Packages (fst (Find ex_tc ex_load ex_query)) = Packages ex_query"
    by blast
  moreover from frame c f
  have "LoadConfig (fst (Find ex_tc ex_load ex_query))
     = Some (ex_config\<lparr>Mode := Mode ex_config OR requiredModes, Fset := Some (ex_parsed NewFileSet)\<rparr>)"
    by blast
  moreover from frame c l ex_Find
  have "dom [ex_geo \<mapsto> Map.empty,
        ex_shapes \<mapsto> [ex_Circle \<mapsto> [''Area'' \<mapsto> ex_CircleArea],
                      Pointer ex_Square \<mapsto> [''Area'' \<mapsto> ex_SquareArea]]] = set [ex_geo, ex_shapes]"
    by metis
  ultimately show ?thesis using c f by (simp add: ex_query_def)
qed

subsection \<open>C8: the order in which Defs is iterated\<close>

text \<open>
  Claim C8 says that two runs of the resolution on the same program, interface and
  method names give the same implementing types in the same forms. \<open>findInterface\<close>
  stops at the first type identifier of the interface's name that the iteration over
  \<open>Defs\<close> meets. With a second type of the name \<open>Shape\<close> in \<open>geo\<close>, the run that meets
  the interface first returns \<open>Circle\<close> and \<open>*Square\<close> for \<open>shapes\<close>; the run that meets
  the other type first panics at the assertion to \<open>*types.Interface\<close> and returns
  nothing.
\<close>

theorem Find_order_dependent_counterexample:
  "sameUpToOrder ex_geo_first ex_geo_second \<and>
   length (namedTypeIdents ex_geo_first ''Shape'') = 2 \<and>
   snd (Find ex_tc (ex_loads [ex_geo_first, ex_shapes]) ex_query)
     = Returns [ex_geo_first \<mapsto> Map.empty,
                ex_shapes \<mapsto> [ex_Circle \<mapsto> [''Area'' \<mapsto> ex_CircleArea],
                              Pointer ex_Square \<mapsto> [''Area'' \<mapsto> ex_SquareArea]]] \<and>
   snd (Find ex_tc (ex_loads [ex_geo_second, ex_shapes]) ex_query) = Panics TypeAssertionFailed"
proof -
  have same: "sameUpToOrder ex_geo_first ex_geo_second"
    by (simp add: sameUpToOrder_def ex_geo_first_def ex_geo_second_def)
  have "pkgsLoop ex_tc ex_Shape [''Area''] [ex_geo_first, ex_shapes] Map.empty
     = Returns [ex_geo_first \<mapsto> Map.empty,
                ex_shapes \<mapsto> [ex_Circle \<mapsto> [''Area'' \<mapsto> ex_CircleArea],
                              Pointer ex_Square \<mapsto> [''Area'' \<mapsto> ex_SquareArea]]]"
    by (simp add: ex_Underlying ex_impls_geo_first ex_impls_shapes ex_load_geo_first ex_load_shapes)
  then have first: "snd (Find ex_tc (ex_loads [ex_geo_first, ex_shapes]) ex_query)
     = Returns [ex_geo_first \<mapsto> Map.empty,
                ex_shapes \<mapsto> [ex_Circle \<mapsto> [''Area'' \<mapsto> ex_CircleArea],
                              Pointer ex_Square \<mapsto> [''Area'' \<mapsto> ex_SquareArea]]]"
    by (simp add: Find_def ex_query_def ex_loads_def ex_findInterface_first
        del: findInterface.simps pkgsLoop.simps)
  have "pkgsLoop ex_tc ex_LocalShape [''Area''] [ex_geo_second, ex_shapes] Map.empty
          = Panics TypeAssertionFailed"
    by (simp add: ex_LocalShape_def)
  then have second: "snd (Find ex_tc (ex_loads [ex_geo_second, ex_shapes]) ex_query)
                       = Panics TypeAssertionFailed"
    by (simp add: Find_def ex_query_def ex_loads_def ex_findInterface_second
        del: findInterface.simps pkgsLoop.simps)
  have two: "length (namedTypeIdents ex_geo_first ''Shape'') = 2"
    by (simp add: namedTypeIdents_def ex_geo_first_def ex_geo_def typeIdent_def packageIdent_def
        funcIdent_def)
  from same two first second show ?thesis by simp
qed

text \<open>
  Claim C8, amended. Take two runs of \<open>Find\<close> on the same query whose loaded packages
  are the same up to the order in which each \<open>Defs\<close> is iterated, and let no loaded
  package with the interface's \<open>ID\<close> hold more than one type identifier of the
  interface's name. Then \<open>findInterface\<close> has the same outcome in both runs; one run
  returns a result iff the other does; when both return, the entries of corresponding
  packages are equal, with the same types in the same forms and the same declarations;
  and for the located interface the scan of corresponding packages either panics in
  both runs or returns the same types in the same forms, in whatever order.
\<close>

theorem Find_order_independent:
  assumes "LoadConfig query = Some config"
      and "snd (load1 (ensureModes config) (Packages query)) = Inr loadedPkgs1"
      and "snd (load2 (ensureModes config) (Packages query)) = Inr loadedPkgs2"
      and "list_all2 sameUpToOrder loadedPkgs1 loadedPkgs2"
      and "\<forall>pkg \<in> set loadedPkgs1. ID pkg = InterfacePackage query \<longrightarrow>
             length (namedTypeIdents pkg (InterfaceName query)) \<le> 1"
  shows "findInterface loadedPkgs1 (InterfacePackage query) (InterfaceName query)
           = findInterface loadedPkgs2 (InterfacePackage query) (InterfaceName query) \<and>
         ((\<exists>result1. snd (Find tc load1 query) = Returns result1) \<longleftrightarrow>
          (\<exists>result2. snd (Find tc load2 query) = Returns result2)) \<and>
         (\<forall>result1 result2.
            snd (Find tc load1 query) = Returns result1 \<and>
            snd (Find tc load2 query) = Returns result2 \<longrightarrow>
            (\<forall>pair \<in> set (zip loadedPkgs1 loadedPkgs2).
               \<exists>resultTypes. result1 (fst pair) = Some resultTypes \<and>
                             result2 (snd pair) = Some resultTypes)) \<and>
         (\<forall>ifaceType.
            findInterface loadedPkgs1 (InterfacePackage query) (InterfaceName query)
              = Returns ifaceType \<longrightarrow>
            (\<forall>pair \<in> set (zip loadedPkgs1 loadedPkgs2).
               (findInterfaceImplementations tc (Underlying ifaceType) (fst pair)
                  = Panics NilPointerDereference \<and>
                findInterfaceImplementations tc (Underlying ifaceType) (snd pair)
                  = Panics NilPointerDereference) \<or>
               (\<exists>impls1 impls2.
                  findInterfaceImplementations tc (Underlying ifaceType) (fst pair) = Returns impls1 \<and>
                  findInterfaceImplementations tc (Underlying ifaceType) (snd pair) = Returns impls2 \<and>
                  set impls1 = set impls2)))"
proof -
  let ?i1 = "findInterface loadedPkgs1 (InterfacePackage query) (InterfaceName query)"
  let ?i2 = "findInterface loadedPkgs2 (InterfacePackage query) (InterfaceName query)"
  have same: "?i1 = ?i2"
    by (rule findInterface_same [OF assms(4,5)])
  show ?thesis
  proof (cases "\<exists>ifaceType. ?i1 = Returns ifaceType")
    case True
    then obtain ifaceType where i1: "?i1 = Returns ifaceType" by blast
    with same have i2: "?i2 = Returns ifaceType" by simp
    note located = Find_same_interface [where ?load1.0 = load1 and ?load2.0 = load2 and tc = tc,
        OF assms(1,2,3,4) i1 i2]
    from located i1 same show ?thesis by simp
  next
    case False
    with same have none: "\<And>ifaceType. ?i1 \<noteq> Returns ifaceType" "\<And>ifaceType. ?i2 \<noteq> Returns ifaceType"
      by simp_all
    have "snd (Find tc load1 query) \<noteq> Returns result" for result
      using none(1) by (auto simp: Find_def assms(1,2) andThen_Returns)
    moreover have "snd (Find tc load2 query) \<noteq> Returns result" for result
      using none(2) by (auto simp: Find_def assms(1,3) andThen_Returns)
    ultimately show ?thesis using same none by simp
  qed
qed

text \<open>
  The small program, loaded once as it is and once with the \<open>Defs\<close> of \<open>shapes\<close>
  iterated backwards: \<open>geo\<close> has one type identifier of the name \<open>Shape\<close>, the scan of
  \<open>shapes\<close> meets the two types in the other order, and the entry of \<open>shapes\<close> is the
  same.
\<close>

theorem Find_order_independent_witness:
  "list_all2 sameUpToOrder [ex_geo, ex_shapes] [ex_geo, ex_shapes_backwards] \<and>
   length (namedTypeIdents ex_geo ''Shape'') = 1 \<and>
   findInterface [ex_geo, ex_shapes_backwards] ''geo'' ''Shape'' = Returns ex_Shape \<and>
   findInterfaceImplementations ex_tc ex_ShapeMethods ex_shapes = Returns [ex_Circle, Pointer ex_Square] \<and>
   findInterfaceImplementations ex_tc ex_ShapeMethods ex_shapes_backwards
     = Returns [Pointer ex_Square, ex_Circle] \<and>
   (\<exists>result2. snd (Find ex_tc (ex_loads [ex_geo, ex_shapes_backwards]) ex_query) = Returns result2 \<and>
      result2 ex_shapes_backwards = Some [ex_Circle \<mapsto> [''Area'' \<mapsto> ex_CircleArea],
                                          Pointer ex_Square \<mapsto> [''Area'' \<mapsto> ex_SquareArea]])"
proof -
  let ?pkgs2 = "[ex_geo, ex_shapes_backwards]"
  have c: "LoadConfig ex_query = Some ex_config"
    by (simp add: ex_query_def)
  have l1: "snd (ex_load (ensureModes ex_config) (Packages ex_query)) = Inr [ex_geo, ex_shapes]"
    by (simp add: ex_query_def ex_load_def)
  have l2: "snd (ex_loads ?pkgs2 (ensureModes ex_config) (Packages ex_query)) = Inr ?pkgs2"
    by (simp add: ex_loads_def)
  have same: "list_all2 sameUpToOrder [ex_geo, ex_shapes] ?pkgs2"
    by (simp add: sameUpToOrder_def ex_shapes_backwards_def)
  have one: "length (namedTypeIdents ex_geo ''Shape'') = 1"
    by (simp add: namedTypeIdents_def ex_geo_def typeIdent_def packageIdent_def funcIdent_def)
  have ids: "ID ex_geo = ''geo''" "ID ex_shapes = ''shapes''"
    by (simp_all add: ex_geo_def ex_shapes_def)
  have unique: "\<forall>pkg \<in> set [ex_geo, ex_shapes]. ID pkg = InterfacePackage ex_query \<longrightarrow>
                  length (namedTypeIdents pkg (InterfaceName ex_query)) \<le> 1"
    using one ids by (simp add: ex_query_def)
  have i1: "findInterface [ex_geo, ex_shapes] (InterfacePackage ex_query) (InterfaceName ex_query)
              = Returns ex_Shape"
    by (simp add: ex_query_def ex_findInterface_geo del: findInterface.simps)
  note inst = Find_order_independent [where ?load1.0 = ex_load and ?load2.0 = "ex_loads ?pkgs2"
      and tc = ex_tc, OF c l1 l2 same unique]
  from inst i1 have i2: "findInterface ?pkgs2 ''geo'' ''Shape'' = Returns ex_Shape"
    by (simp add: ex_query_def del: findInterface.simps)
  from inst ex_Find obtain result2
    where r2: "snd (Find ex_tc (ex_loads ?pkgs2) ex_query) = Returns result2" by blast
  have pair: "(ex_shapes, ex_shapes_backwards) \<in> set (zip [ex_geo, ex_shapes] ?pkgs2)" by simp
  from inst ex_Find r2 pair
  obtain resultTypes where
    "[ex_geo \<mapsto> Map.empty,
      ex_shapes \<mapsto> [ex_Circle \<mapsto> [''Area'' \<mapsto> ex_CircleArea],
                    Pointer ex_Square \<mapsto> [''Area'' \<mapsto> ex_SquareArea]]] ex_shapes = Some resultTypes"
    "result2 ex_shapes_backwards = Some resultTypes"
    by fastforce
  then have "result2 ex_shapes_backwards = Some [ex_Circle \<mapsto> [''Area'' \<mapsto> ex_CircleArea],
                                          Pointer ex_Square \<mapsto> [''Area'' \<mapsto> ex_SquareArea]]"
    by simp
  with r2 same one i2 ex_impls_shapes ex_impls_shapes_backwards show ?thesis by blast
qed

subsection \<open>C9: a nil LoadConfig\<close>

text \<open>
  Claim C9. \<open>Find\<close> dereferences \<open>query.LoadConfig\<close> before anything else: for every
  query whose \<open>LoadConfig\<close> is \<open>nil\<close>, whatever its other fields, the type checker and
  the loader, \<open>Find\<close> panics with a nil-pointer dereference and returns no error; the
  query is as it was.
\<close>

theorem Find_nil_LoadConfig_panics:
  assumes "LoadConfig query = None"
  shows "Find tc load query = (query, Panics NilPointerDereference)"
  using assms by (simp add: Find_def)

text \<open>The query of the small program with its \<open>LoadConfig\<close> set to \<open>nil\<close>.\<close>

theorem Find_nil_LoadConfig_panics_witness:
  "LoadConfig (ex_query\<lparr>LoadConfig := None\<rparr>) = None \<and>
   Find ex_tc ex_load (ex_query\<lparr>LoadConfig := None\<rparr>)
     = (ex_query\<lparr>LoadConfig := None\<rparr>, Panics NilPointerDereference)"
  using Find_nil_LoadConfig_panics [of "ex_query\<lparr>LoadConfig := None\<rparr>" ex_tc ex_load]
  by simp

subsection \<open>C10: method declarations without body\<close>

text \<open>
  Claim C10. \<open>pkgMethodBodyDecls\<close> reads \<open>declFunc.Body.Pos()\<close> of every function
  declaration with a receiver. It has no error branch: it never fails with an error. It
  panics with a nil-pointer dereference exactly when some file of the package holds a
  declaration with a receiver and no body, and then \<open>loadPkgTypeMethodASTs\<close>, which
  builds the index first, panics too.
\<close>

theorem pkgMethodBodyDecls_nil_Body_panics:
  "(\<forall>e. pkgMethodBodyDecls pkg \<noteq> Fails e) \<and>
   (pkgMethodBodyDecls pkg = Panics NilPointerDereference \<longleftrightarrow>
      (\<exists>astFile \<in> set (Syntax pkg). \<exists>declFunc.
         Decl_Func declFunc \<in> set (Decls astFile) \<and> Recv declFunc \<noteq> None \<and> Body declFunc = None)) \<and>
   (pkgMethodBodyDecls pkg = Panics NilPointerDereference \<longrightarrow>
      loadPkgTypeMethodASTs tc impls pkg methodNames = Panics NilPointerDereference)"
proof (intro conjI)
  show "\<forall>e. pkgMethodBodyDecls pkg \<noteq> Fails e"
    by (simp add: pkgMethodBodyDecls_eq declsLoop_not_Fails)
  have "pkgMethodBodyDecls pkg = Panics NilPointerDereference \<longleftrightarrow>
          (\<exists>f \<in> set (methodDecls (concat (map Decls (Syntax pkg)))). Body f = None)"
    by (simp add: pkgMethodBodyDecls_eq declsLoop_Panics)
  also have "\<dots> \<longleftrightarrow> (\<exists>astFile \<in> set (Syntax pkg). \<exists>declFunc.
         Decl_Func declFunc \<in> set (Decls astFile) \<and> Recv declFunc \<noteq> None \<and> Body declFunc = None)"
    unfolding set_methodDecls_Syntax Bex_def by blast
  finally show "pkgMethodBodyDecls pkg = Panics NilPointerDereference \<longleftrightarrow>
      (\<exists>astFile \<in> set (Syntax pkg). \<exists>declFunc.
         Decl_Func declFunc \<in> set (Decls astFile) \<and> Recv declFunc \<noteq> None \<and> Body declFunc = None)" .
  show "pkgMethodBodyDecls pkg = Panics NilPointerDereference \<longrightarrow>
      loadPkgTypeMethodASTs tc impls pkg methodNames = Panics NilPointerDereference"
    by (simp add: loadPkgTypeMethodASTs_def)
qed

text \<open>Package \<open>asm\<close> declares \<open>func (s *Square) Fast()\<close> without body.\<close>

theorem pkgMethodBodyDecls_nil_Body_panics_witness:
  "pkgMethodBodyDecls ex_asm = Panics NilPointerDereference \<and>
   (\<exists>astFile \<in> set (Syntax ex_asm). \<exists>declFunc.
      Decl_Func declFunc \<in> set (Decls astFile) \<and> Recv declFunc \<noteq> None \<and> Body declFunc = None) \<and>
   loadPkgTypeMethodASTs ex_tc [] ex_asm [''Area''] = Panics NilPointerDereference"
proof -
  have "pkgMethodBodyDecls ex_asm = Panics NilPointerDereference"
    by (simp add: pkgMethodBodyDecls_def ex_asm_def ex_Fast_def)
  with pkgMethodBodyDecls_nil_Body_panics [of ex_asm ex_tc "[]" "[''Area'']"]
  show ?thesis by blast
qed

end
